theory Spec2Isabelle
  imports Main "HOL-Library.AList" "HOL-Library.List_Lexorder" "HOL-Library.Char_ord"
begin

section \<open>Exceptions\<close>

text \<open>
  The Python exceptions the modelled code can raise. Every function that can raise
  returns a sum: \<open>Inl\<close> carries the exception, \<open>Inr\<close> the normal result.
  \<open>Unmodelled\<close> is not a Python exception: it marks the few places where the outcome
  depends on library behaviour that this development does not describe.
\<close>

datatype error =
    AttributeError string
  | KeyError string
  | TypeError string
  | ValueError string
  | IndexError string
  | EOFError
  | ZeroDivisionError
  | KeyboardInterrupt
  | Unmodelled string

section \<open>JSON values\<close>

text \<open>
  What \<open>json.load\<close> and \<open>r.json()\<close> return: \<open>JNull\<close> is Python's \<open>None\<close>, an
  object is a dictionary (in insertion order). Floating-point numbers are left out.
  \<open>truthy\<close> is Python's truth value of such a value (\<open>if jwt:\<close>, \<open>if device:\<close>).
\<close>

datatype json =
    JNull
  | JBool bool
  | JNum int
  | JStr string
  | JArr "json list"
  | JObj "(string \<times> json) list"

fun truthy :: "json \<Rightarrow> bool" where
  "truthy JNull = False"
| "truthy (JBool b) = b"
| "truthy (JNum n) = (n \<noteq> 0)"
| "truthy (JStr s) = (s \<noteq> [])"
| "truthy (JArr xs) = (xs \<noteq> [])"
| "truthy (JObj kvs) = (kvs \<noteq> [])"

section \<open>The session: class GatewayConfig (src/cli/gateway.py)\<close>

text \<open>
  The configuration document is the JSON object the program itself writes:
  \<^verbatim>\<open>{"gateways": {name: {key: value, ...}, ...}}\<close>. Python dictionaries keep
  insertion order, so each level is an association list, read with \<open>map_of\<close> and
  written with \<open>AList.update\<close> (which replaces in place or appends at the end, as a
  dictionary assignment does).

  \<open>self.root\<close> is an alias of the dictionary \<open>self.config[key][value]\<close>. The model
  keeps the path \<open>(key, value)\<close> of the aliased dictionary; a write through the alias
  is a write at that path. Nothing in the program removes or replaces a dictionary of
  the tree, so the path always resolves (\<open>root_ok\<close> below). The attribute does not
  exist until \<open>set_root\<close> has run: that is \<open>root = None\<close>.
\<close>

type_synonym scope = "(string \<times> json) list"
type_synonym document = "(string \<times> (string \<times> scope) list) list"

datatype file_content = Json document | Unparsable

datatype fs_op = Write_file string document | Rename_file string string

record filesystem =
  files :: "(string \<times> file_content) list"
  fs_log :: "fs_op list"

record gateway_config =
  filename :: string
  config :: document
  dirty :: bool
  root :: "(string \<times> string) option"

text \<open>\<open>open(name, 'w')\<close> with \<open>json.dump\<close>, and \<open>os.rename\<close>; both are logged.\<close>

definition write_file :: "string \<Rightarrow> document \<Rightarrow> filesystem \<Rightarrow> filesystem" where
  "write_file name doc fs =
     fs\<lparr>files := AList.update name (Json doc) (files fs),
        fs_log := fs_log fs @ [Write_file name doc]\<rparr>"

definition rename_file :: "string \<Rightarrow> string \<Rightarrow> filesystem \<Rightarrow> filesystem" where
  "rename_file src dst fs =
     fs\<lparr>files := (case map_of (files fs) src of
                      None \<Rightarrow> files fs
                    | Some content \<Rightarrow> AList.update dst content (AList.delete src (files fs))),
        fs_log := fs_log fs @ [Rename_file src dst]\<rparr>"

text \<open>
  \<open>GatewayConfig.__init__\<close>: \<open>home\<close> is \<open>pathlib.Path.home()\<close>. A missing or
  unparsable file leaves the empty document; then the key \<open>gateways\<close> is added when
  absent. \<open>self.root\<close> is not assigned.
\<close>

definition GatewayConfig_init :: "string \<Rightarrow> filesystem \<Rightarrow> gateway_config" where
  "GatewayConfig_init home fs =
     (let fname = home @ ''/.moziot-cli.json'';
          loaded = (case map_of (files fs) fname of
                      Some (Json doc) \<Rightarrow> doc
                    | Some Unparsable \<Rightarrow> []
                    | None \<Rightarrow> []);
          cfg = (if map_of loaded ''gateways'' = None
                 then AList.update ''gateways'' [] loaded else loaded)
      in \<lparr>filename = fname, config = cfg, dirty = False, root = None\<rparr>)"

text \<open>The dictionary \<open>self.root\<close> refers to.\<close>

definition root_scope :: "gateway_config \<Rightarrow> scope option" where
  "root_scope c =
     (case root c of
        None \<Rightarrow> None
      | Some (key, val) \<Rightarrow>
          (case map_of (config c) key of
             None \<Rightarrow> None
           | Some sub \<Rightarrow> map_of sub val))"

definition root_ok :: "gateway_config \<Rightarrow> bool" where
  "root_ok c = (root c = None \<or> root_scope c \<noteq> None)"

text \<open>
  \<open>GatewayConfig.get\<close>: reading \<open>self.root\<close> raises AttributeError while the
  attribute is unset.
\<close>

definition GatewayConfig_get :: "gateway_config \<Rightarrow> string \<Rightarrow> error + json" where
  "GatewayConfig_get c key =
     (case root c of
        None \<Rightarrow> Inl (AttributeError ''root'')
      | Some p \<Rightarrow>
          (case root_scope c of
             None \<Rightarrow> Inl (KeyError (snd p))
           | Some sc \<Rightarrow>
               (case map_of sc key of
                  Some v \<Rightarrow> Inr v
                | None \<Rightarrow> Inr (JStr ''''))))"

text \<open>\<open>GatewayConfig.save\<close>\<close>

definition GatewayConfig_save ::
  "gateway_config \<Rightarrow> filesystem \<Rightarrow> gateway_config \<times> filesystem" where
  "GatewayConfig_save c fs =
     (if dirty c then
        (let tmp_filename = filename c @ ''.tmp'';
             fs1 = write_file tmp_filename (config c) fs;
             fs2 = rename_file tmp_filename (filename c) fs1
         in (c\<lparr>dirty := False\<rparr>, fs2))
      else (c, fs))"

text \<open>\<open>GatewayConfig.set_root\<close>: \<open>self.config[key]\<close> raises KeyError on a missing key.\<close>

definition GatewayConfig_set_root ::
  "gateway_config \<Rightarrow> string \<Rightarrow> string \<Rightarrow> error + gateway_config" where
  "GatewayConfig_set_root c key val =
     (case map_of (config c) key of
        None \<Rightarrow> Inl (KeyError key)
      | Some sub \<Rightarrow>
          (let cfg = (if map_of sub val = None
                      then AList.update key (AList.update val [] sub) (config c)
                      else config c)
           in Inr (c\<lparr>config := cfg, root := Some (key, val)\<rparr>)))"

text \<open>
  \<open>GatewayConfig.set\<close>: the flag is set first, then the write goes through the alias;
  the flag stays set when reading \<open>self.root\<close> raises.
\<close>

definition GatewayConfig_set ::
  "gateway_config \<Rightarrow> string \<Rightarrow> json \<Rightarrow> (error + unit) \<times> gateway_config" where
  "GatewayConfig_set c key v =
     (let c1 = c\<lparr>dirty := True\<rparr> in
      case root c1 of
        None \<Rightarrow> (Inl (AttributeError ''root''), c1)
      | Some (rk, rv) \<Rightarrow>
          (case map_of (config c1) rk of
             None \<Rightarrow> (Inl (KeyError rk), c1)
           | Some sub \<Rightarrow>
               (case map_of sub rv of
                  None \<Rightarrow> (Inl (KeyError rv), c1)
                | Some sc \<Rightarrow>
                    (Inr (), c1\<lparr>config :=
                          AList.update rk (AList.update rv (AList.update key v sc) sub)
                            (config c1)\<rparr>))))"

section \<open>The output sink: class CommandLineOutput (src/cli/command_line.py)\<close>

text \<open>
  A piece of output is a string, or a text kept symbolic: \<open>json.dumps(x, indent=2)\<close>,
  \<open>json.dumps(x)\<close> or the Python \<open>repr\<close> of a value. \<open>percent_format f args\<close> is Python's \<open>f % args\<close> for a tuple \<open>args\<close> whose
  elements are already rendered as strings (the program formats strings and integers
  only): \<open>%s\<close> and \<open>%d\<close> take the next argument, \<open>%%\<close> is a percent sign, a lone
  \<open>%\<close> at the end is a ValueError, a missing or a left-over argument is a TypeError.
\<close>

datatype message =
    Str string
  | Json_dumps json
  | Json_dumps_compact json
  | Python_repr json

fun str_nat :: "nat \<Rightarrow> string" where
  "str_nat n = (if n < 10 then [char_of (48 + n)]
                else str_nat (n div 10) @ [char_of (48 + n mod 10)])"

declare str_nat.simps [simp del]

fun percent_format :: "string \<Rightarrow> string list \<Rightarrow> error + string" where
  "percent_format [] args =
     (if args = [] then Inr []
      else Inl (TypeError ''not all arguments converted during string formatting''))"
| "percent_format [c] args =
     (if c = CHR ''%'' then Inl (ValueError ''incomplete format'')
      else map_sum id (\<lambda>r. c # r) (percent_format [] args))"
| "percent_format (c # d # cs) args =
     (if c \<noteq> CHR ''%'' then map_sum id (\<lambda>r. c # r) (percent_format (d # cs) args)
      else if d = CHR ''%'' then map_sum id (\<lambda>r. CHR ''%'' # r) (percent_format cs args)
      else if d = CHR ''s'' \<or> d = CHR ''d'' then
        (case args of
           [] \<Rightarrow> Inl (TypeError ''not enough arguments for format string'')
         | a # as \<Rightarrow> map_sum id (\<lambda>r. a @ r) (percent_format cs as))
      else Inl (Unmodelled ''format specification''))"

fun percent :: "message \<Rightarrow> string list \<Rightarrow> error + message" where
  "percent (Str f) args = map_sum id Str (percent_format f args)"
| "percent (Json_dumps j) args = Inl (Unmodelled ''formatting of json.dumps text'')"
| "percent (Json_dumps_compact j) args = Inl (Unmodelled ''formatting of json.dumps text'')"
| "percent (Python_repr j) args = Inl (Unmodelled ''formatting of repr text'')"

text \<open>
  \<open>logged\<close> is what reaches the Python logger \<open>self.log\<close>: level, message and
  arguments, as passed.
\<close>

record output_sink =
  captured_output :: "(string \<times> message) list option"
  error_count :: nat
  fatal_count :: nat
  buffered_output :: string
  logged :: "(string \<times> message \<times> string list) list"

definition CommandLineOutput_init :: output_sink where
  "CommandLineOutput_init =
     \<lparr>captured_output = None, error_count = 0, fatal_count = 0,
      buffered_output = [], logged = []\<rparr>"

definition set_capture_output :: "bool \<Rightarrow> output_sink \<Rightarrow> output_sink" where
  "set_capture_output capture_output s =
     (if capture_output then s\<lparr>captured_output := Some []\<rparr>
      else s\<lparr>captured_output := None\<rparr>)"

text \<open>
  \<open>msg % args\<close> is evaluated only while output is captured, and before anything is
  changed, so a formatting error leaves the sink as it was.
\<close>

definition CommandLineOutput_info ::
  "message \<Rightarrow> string list \<Rightarrow> output_sink \<Rightarrow> error + output_sink" where
  "CommandLineOutput_info msg args s =
     (case captured_output s of
        None \<Rightarrow> Inr (s\<lparr>logged := logged s @ [(''info'', msg, args)]\<rparr>)
      | Some cap \<Rightarrow>
          (case percent msg args of
             Inl e \<Rightarrow> Inl e
           | Inr m \<Rightarrow>
               Inr (s\<lparr>captured_output := Some (cap @ [(''info'', m)]),
                      logged := logged s @ [(''info'', msg, args)]\<rparr>)))"

definition CommandLineOutput_error ::
  "message \<Rightarrow> string list \<Rightarrow> output_sink \<Rightarrow> error + output_sink" where
  "CommandLineOutput_error msg args s =
     (case captured_output s of
        None \<Rightarrow>
          Inr (s\<lparr>error_count := error_count s + 1,
                 logged := logged s @ [(''error'', msg, args)]\<rparr>)
      | Some cap \<Rightarrow>
          (case percent msg args of
             Inl e \<Rightarrow> Inl e
           | Inr m \<Rightarrow>
               Inr (s\<lparr>captured_output := Some (cap @ [(''error'', m)]),
                      error_count := error_count s + 1,
                      logged := logged s @ [(''error'', msg, args)]\<rparr>)))"

definition CommandLineOutput_fatal ::
  "message \<Rightarrow> string list \<Rightarrow> output_sink \<Rightarrow> error + output_sink" where
  "CommandLineOutput_fatal msg args s =
     (case captured_output s of
        None \<Rightarrow>
          Inr (s\<lparr>fatal_count := fatal_count s + 1,
                 logged := logged s @ [(''fatal'', msg, args)]\<rparr>)
      | Some cap \<Rightarrow>
          (case percent msg args of
             Inl e \<Rightarrow> Inl e
           | Inr m \<Rightarrow>
               Inr (s\<lparr>captured_output := Some (cap @ [(''fatal'', m)]),
                      fatal_count := fatal_count s + 1,
                      logged := logged s @ [(''fatal'', msg, args)]\<rparr>)))"

text \<open>
  The loop of \<open>write\<close>: each completed line goes through \<open>info\<close>; what follows the
  last newline stays buffered. When \<open>info\<close> raises, the rest of the text is lost
  (the buffer was emptied before the loop).
\<close>

function write_loop :: "string \<Rightarrow> output_sink \<Rightarrow> (error + unit) \<times> output_sink" where
  "write_loop string s =
     (if CHR 0x0A \<notin> set string then (Inr (), s\<lparr>buffered_output := string\<rparr>)
      else
        (case CommandLineOutput_info (Str (takeWhile (\<lambda>c. c \<noteq> CHR 0x0A) string)) [] s of
           Inl e \<Rightarrow> (Inl e, s)
         | Inr s' \<Rightarrow> write_loop (tl (dropWhile (\<lambda>c. c \<noteq> CHR 0x0A) string)) s'))"
  by pat_completeness auto
termination
proof (relation "measure (\<lambda>(string, s). length string)")
  show "wf (measure (\<lambda>(string, s). length string))" by simp
next
  fix string :: string and s x2 :: output_sink
  assume "\<not> CHR 0x0A \<notin> set string"
  then have "dropWhile (\<lambda>c. c \<noteq> CHR 0x0A) string \<noteq> []" by simp
  then have "length (tl (dropWhile (\<lambda>c. c \<noteq> CHR 0x0A) string))
               < length (dropWhile (\<lambda>c. c \<noteq> CHR 0x0A) string)"
    by (cases "dropWhile (\<lambda>c. c \<noteq> CHR 0x0A) string") simp_all
  also have "\<dots> \<le> length string" by (rule length_dropWhile_le)
  finally show "((tl (dropWhile (\<lambda>c. c \<noteq> CHR 0x0A) string), x2), (string, s))
                  \<in> measure (\<lambda>(string, s). length string)"
    by simp
qed

declare write_loop.simps [simp del]

definition CommandLineOutput_write ::
  "string \<Rightarrow> output_sink \<Rightarrow> (error + unit) \<times> output_sink" where
  "CommandLineOutput_write string s =
     (if length (buffered_output s) > 0
      then write_loop (buffered_output s @ string) (s\<lparr>buffered_output := []\<rparr>)
      else write_loop string s)"

section \<open>The process and its environment\<close>

text \<open>
  The environment is scripted. \<open>keyboard\<close> is what the user types, one entry per read
  (\<open>input\<close>, \<open>getpass\<close>): a line, Control-D (EOFError) or Control-C
  (KeyboardInterrupt); when the script is used up every further read is an end of
  file. \<open>server\<close> is the outcome of each HTTP request in turn: a response, or a
  failure to connect; when the script is used up the server cannot be reached any
  more. \<open>sent\<close> logs the requests made, \<open>terminal\<close> what is written to the terminal
  directly (prompts, \<open>print\<close>).

  The objects every shell shares are fields of the state: the output sink
  (\<open>CommandLineBase.output\<close>), the session (\<open>config\<close>), the shell stack
  (\<open>CommandLineBase.cmd_stack\<close>), the flags \<open>CommandLineBase.quitting\<close> and
  \<open>Cmd.use_rawinput\<close>, the width of the terminal (\<open>screen_columns\<close>), and the
  \<open>Gateway\<close> object of the gateway shell and its
  sub-shells (\<open>client\<close>; at most one is reachable at a time, since only the top-level
  shell creates one). \<open>login_calls\<close> is a ghost counter of the calls of
  \<open>Gateway.login\<close>.
\<close>

datatype key_event = Line string | CtrlD | CtrlC

record response =
  status_code :: nat
  resp_text :: string
  body :: "json option"

datatype http_outcome = ConnectionError | Response response

record request =
  meth :: string
  url :: string
  req_headers :: "(string \<times> string) list"
  data :: "json option"

record gateway =
  gateway_url :: string
  headers :: "(string \<times> string) list"

datatype shell_kind =
    CommandLine
  | GatewayCommandLine
  | GatewayDeviceCommandLine json
  | GatewayThingCommandLine json

record shell =
  kind :: shell_kind
  script_name :: "string option"
  line_num :: nat
  command :: "string option"
  cmd_prompt :: json
  cmdloop_executed :: bool
  prompt :: string
  columns :: nat

record world =
  keyboard :: "key_event list"
  server :: "http_outcome list"
  sent :: "request list"
  terminal :: "message list"
  sink :: output_sink
  session :: gateway_config
  disk :: filesystem
  client :: gateway
  cmd_stack :: "shell list"
  quitting :: bool
  use_rawinput :: bool
  screen_columns :: nat
  login_calls :: nat

definition read_key :: "world \<Rightarrow> (error + string) \<times> world" where
  "read_key w =
     (case keyboard w of
        [] \<Rightarrow> (Inl EOFError, w)
      | Line s # ks \<Rightarrow> (Inr s, w\<lparr>keyboard := ks\<rparr>)
      | CtrlD # ks \<Rightarrow> (Inl EOFError, w\<lparr>keyboard := ks\<rparr>)
      | CtrlC # ks \<Rightarrow> (Inl KeyboardInterrupt, w\<lparr>keyboard := ks\<rparr>))"

definition show_prompt :: "string \<Rightarrow> world \<Rightarrow> world" where
  "show_prompt p w = w\<lparr>terminal := terminal w @ [Str p]\<rparr>"

text \<open>\<open>print(s)\<close> writes \<open>s\<close> and a newline.\<close>

definition py_print :: "string \<Rightarrow> world \<Rightarrow> world" where
  "py_print s w = w\<lparr>terminal := terminal w @ [Str (s @ [CHR 0x0A])]\<rparr>"

definition send :: "request \<Rightarrow> world \<Rightarrow> http_outcome \<times> world" where
  "send rq w =
     (case server w of
        [] \<Rightarrow> (ConnectionError, w\<lparr>sent := sent w @ [rq]\<rparr>)
      | out # rest \<Rightarrow> (out, w\<lparr>server := rest, sent := sent w @ [rq]\<rparr>))"

definition log_error :: "message \<Rightarrow> string list \<Rightarrow> world \<Rightarrow> (error + unit) \<times> world" where
  "log_error msg args w =
     (case CommandLineOutput_error msg args (sink w) of
        Inl e \<Rightarrow> (Inl e, w)
      | Inr s \<Rightarrow> (Inr (), w\<lparr>sink := s\<rparr>))"

definition log_info :: "message \<Rightarrow> string list \<Rightarrow> world \<Rightarrow> (error + unit) \<times> world" where
  "log_info msg args w =
     (case CommandLineOutput_info msg args (sink w) of
        Inl e \<Rightarrow> (Inl e, w)
      | Inr s \<Rightarrow> (Inr (), w\<lparr>sink := s\<rparr>))"

text \<open>\<open>r.json()\<close> and subscripting its result with a string key.\<close>

definition response_json :: "response \<Rightarrow> error + json" where
  "response_json r =
     (case body r of
        None \<Rightarrow> Inl (ValueError ''JSONDecodeError'')
      | Some j \<Rightarrow> Inr j)"

fun json_item :: "json \<Rightarrow> string \<Rightarrow> error + json" where
  "json_item (JObj kvs) k =
     (case map_of kvs k of None \<Rightarrow> Inl (KeyError k) | Some v \<Rightarrow> Inr v)"
| "json_item JNull k = Inl (TypeError ''NoneType object is not subscriptable'')"
| "json_item (JBool b) k = Inl (TypeError ''bool object is not subscriptable'')"
| "json_item (JNum n) k = Inl (TypeError ''int object is not subscriptable'')"
| "json_item (JStr s) k = Inl (TypeError ''string indices must be integers'')"
| "json_item (JArr xs) k = Inl (TypeError ''list indices must be integers'')"

section \<open>The authenticated client: class Gateway (src/cli/gateway.py)\<close>

definition Gateway_url :: "gateway \<Rightarrow> string \<Rightarrow> string" where
  "Gateway_url g path = gateway_url g @ path"

text \<open>
  \<open>Gateway.set_jwt\<close>: the session is written first; \<open>'Bearer ' + jwt\<close> raises
  TypeError when the token is not a string.
\<close>

definition Gateway_set_jwt :: "json \<Rightarrow> world \<Rightarrow> (error + unit) \<times> world" where
  "Gateway_set_jwt jwt w =
     (case GatewayConfig_set (session w) ''jwt'' jwt of
        (Inl e, c) \<Rightarrow> (Inl e, w\<lparr>session := c\<rparr>)
      | (Inr u, c) \<Rightarrow>
          (case jwt of
             JStr s \<Rightarrow>
               (Inr (), w\<lparr>session := c,
                          client := (client w)\<lparr>headers :=
                            AList.update ''Authorization'' (''Bearer '' @ s)
                              (headers (client w))\<rparr>\<rparr>)
           | _ \<Rightarrow> (Inl (TypeError ''can only concatenate str to str''), w\<lparr>session := c\<rparr>)))"

text \<open>\<open>Gateway.__init__\<close>: the new object becomes the client of the process.\<close>

definition Gateway_init :: "string \<Rightarrow> world \<Rightarrow> (error + unit) \<times> world" where
  "Gateway_init gw_url w =
     (let w1 = w\<lparr>client := \<lparr>gateway_url = gw_url,
                    headers = [(''Content-Type'', ''application/json''),
                               (''Accept'', ''application/json'')]\<rparr>\<rparr>
      in case GatewayConfig_get (session w1) ''jwt'' of
           Inl e \<Rightarrow> (Inl e, w1)
         | Inr jwt \<Rightarrow> (if truthy jwt then Gateway_set_jwt jwt w1 else (Inr (), w1)))"

text \<open>
  \<open>Gateway.login\<close>. \<open>login_pass\<close> is one pass through the body of its
  \<open>while True\<close>: \<open>Inl\<close> when the pass leaves the function (a \<open>return\<close> or an
  exception), \<open>Inr\<close> when it reaches the end of the body and the loop goes round
  again. A pass that goes round has used one outcome of the server script.
\<close>

definition login_pass :: "world \<Rightarrow> ((error + json option) \<times> world) + world" where
  "login_pass w =
     (case read_key (show_prompt ''Enter    email: '' w) of
        (Inl e, w1) \<Rightarrow>
          (if e = EOFError then Inl (Inr None, py_print [] w1) else Inl (Inl e, w1))
      | (Inr email, w1) \<Rightarrow>
          (case read_key (show_prompt ''Enter password: '' w1) of
             (Inl e, w2) \<Rightarrow>
               (if e = EOFError then Inl (Inr None, py_print [] w2) else Inl (Inl e, w2))
           | (Inr password, w2) \<Rightarrow>
               (let login_url = Gateway_url (client w2) ''/login'' in
                case send \<lparr>meth = ''POST'', url = login_url,
                           req_headers = headers (client w2),
                           data = Some (JObj [(''email'', JStr email),
                                              (''password'', JStr password)])\<rparr> w2 of
                  (ConnectionError, w3) \<Rightarrow>
                    (case log_error (Str ''Unable to connect to server: %s'') [login_url] w3 of
                       (Inl e, w4) \<Rightarrow> Inl (Inl e, w4)
                     | (Inr u, w4) \<Rightarrow> Inl (Inr None, w4))
                | (Response r, w3) \<Rightarrow>
                    (if status_code r = 200 then
                       (case response_json r of
                          Inl e \<Rightarrow> Inl (Inl e, w3)
                        | Inr j \<Rightarrow>
                            (case json_item j ''jwt'' of
                               Inl e \<Rightarrow> Inl (Inl e, w3)
                             | Inr jwt \<Rightarrow>
                                 (case Gateway_set_jwt jwt w3 of
                                    (Inl e, w4) \<Rightarrow> Inl (Inl e, w4)
                                  | (Inr u, w4) \<Rightarrow> Inl (Inr (Some jwt), w4))))
                     else
                       (case log_error (Str ''Login failed: %s'') [resp_text r] w3 of
                          (Inl e, w4) \<Rightarrow> Inl (Inl e, w4)
                        | (Inr u, w4) \<Rightarrow> Inr w4)))))"

function login_loop :: "world \<Rightarrow> (error + json option) \<times> world" where
  "login_loop w = (case login_pass w of Inl res \<Rightarrow> res | Inr w' \<Rightarrow> login_loop w')"
  by pat_completeness auto
termination
proof (relation "measure (\<lambda>w. length (server w))")
  show "wf (measure (\<lambda>w. length (server w)))" by simp
next
  have rk: "read_key v = (x, v') \<Longrightarrow> server v' = server v" for v x v'
    by (auto simp: read_key_def split: list.splits key_event.splits)
  have le: "log_error m a v = (y, v') \<Longrightarrow> server v' = server v" for m a v y v'
    by (auto simp: log_error_def split: sum.splits)
  have sdr: "send rq v = (Response r, v') \<Longrightarrow> length (server v') < length (server v)"
    for rq v r v'
    by (auto simp: send_def split: list.splits)
  fix w w' :: world
  assume "login_pass w = Inr w'"
  then have "length (server w') < length (server w)"
    by (auto simp: login_pass_def Let_def show_prompt_def
        split: prod.splits sum.splits http_outcome.splits if_splits dest!: rk le sdr)
  then show "(w', w) \<in> measure (\<lambda>w. length (server w))" by simp
qed

declare login_loop.simps [simp del]

definition Gateway_login :: "world \<Rightarrow> (error + json option) \<times> world" where
  "Gateway_login w = login_loop (w\<lparr>login_calls := login_calls w + 1\<rparr>)"

text \<open>
  \<open>Gateway.get\<close> and \<open>Gateway.put\<close> are the same loop, apart from the method and
  the request body; \<open>put\<close> also reports a failure as \<open>GET failed\<close>. Again
  \<open>request_pass\<close> is one pass through the body. The result of \<open>self.login()\<close> is
  not looked at: the loop goes round whatever it returned.
\<close>

definition request_pass ::
  "string \<Rightarrow> json option \<Rightarrow> string \<Rightarrow> world \<Rightarrow> ((error + response option) \<times> world) + world" where
  "request_pass m d path w =
     (let u = Gateway_url (client w) path in
      case send \<lparr>meth = m, url = u, req_headers = headers (client w), data = d\<rparr> w of
        (ConnectionError, w1) \<Rightarrow>
          (case log_error (Str ''Unable to connect to server: %s'') [u] w1 of
             (Inl e, w2) \<Rightarrow> Inl (Inl e, w2)
           | (Inr x, w2) \<Rightarrow> Inl (Inr None, w2))
      | (Response r, w1) \<Rightarrow>
          (if status_code r = 200 then Inl (Inr (Some r), w1)
           else if status_code r = 404 then Inl (Inr None, w1)
           else if status_code r \<noteq> 401 then
             (case log_error (Str ''GET failed: %s - %s'')
                     [str_nat (status_code r), resp_text r] w1 of
                (Inl e, w2) \<Rightarrow> Inl (Inl e, w2)
              | (Inr x, w2) \<Rightarrow> Inl (Inr None, w2))
           else
             (case Gateway_login w1 of
                (Inl e, w2) \<Rightarrow> Inl (Inl e, w2)
              | (Inr x, w2) \<Rightarrow> Inr w2)))"

function request_loop ::
  "string \<Rightarrow> json option \<Rightarrow> string \<Rightarrow> world \<Rightarrow> (error + response option) \<times> world" where
  "request_loop m d path w =
     (case request_pass m d path w of Inl res \<Rightarrow> res | Inr w' \<Rightarrow> request_loop m d path w')"
  by pat_completeness auto
termination
proof (relation "measure (\<lambda>(m, d, path, w). length (server w))")
  show "wf (measure (\<lambda>(m, d, path, w). length (server w)))" by simp
next
  have rk: "read_key v = (x, v') \<Longrightarrow> server v' = server v" for v x v'
    by (auto simp: read_key_def split: list.splits key_event.splits)
  have le: "log_error ms a v = (y, v') \<Longrightarrow> server v' = server v" for ms a v y v'
    by (auto simp: log_error_def split: sum.splits)
  have sj: "Gateway_set_jwt j v = (y, v') \<Longrightarrow> server v' = server v" for j v y v'
    by (auto simp: Gateway_set_jwt_def split: prod.splits sum.splits json.splits)
  have sd: "send rq v = (out, v') \<Longrightarrow> length (server v') \<le> length (server v)"
    for rq v out v'
    by (auto simp: send_def split: list.splits)
  have sdr: "send rq v = (Response r, v') \<Longrightarrow> length (server v') < length (server v)"
    for rq v r v'
    by (auto simp: send_def split: list.splits)
  have again: "login_pass v = Inr v' \<Longrightarrow> length (server v') \<le> length (server v)"
    for v v'
    by (auto simp: login_pass_def Let_def show_prompt_def
        split: prod.splits sum.splits http_outcome.splits if_splits dest!: rk le sdr)
  have pass: "login_pass v = Inl (res, v') \<Longrightarrow> length (server v') \<le> length (server v)"
    for v res v'
    by (auto simp: login_pass_def Let_def show_prompt_def py_print_def
        split: prod.splits sum.splits http_outcome.splits if_splits dest!: rk le sd sj)
  have loop: "length (server (snd (login_loop v))) \<le> length (server v)" for v
  proof (induction v rule: login_loop.induct)
    case (1 v)
    show ?case
    proof (cases "login_pass v")
      case (Inl res)
      with pass [of v "fst res" "snd res"] show ?thesis
        by (subst login_loop.simps) simp
    next
      case (Inr v')
      with 1 [of v'] again [of v v'] show ?thesis
        by (subst login_loop.simps) simp
    qed
  qed
  have gl: "Gateway_login v = (x, v') \<Longrightarrow> length (server v') \<le> length (server v)"
    for v x v'
    using loop [of "v\<lparr>login_calls := login_calls v + 1\<rparr>"]
    by (simp add: Gateway_login_def)
  fix m :: string and d :: "json option" and path :: string and w w' :: world
  assume "request_pass m d path w = Inr w'"
  then have "length (server w') < length (server w)"
    by (auto simp: request_pass_def Let_def
        split: prod.splits http_outcome.splits if_splits sum.splits dest!: sdr gl)
  then show "((m, d, path, w'), (m, d, path, w)) \<in> measure (\<lambda>(m, d, path, w). length (server w))"
    by simp
qed

declare request_loop.simps [simp del]

definition Gateway_get :: "string \<Rightarrow> world \<Rightarrow> (error + response option) \<times> world" where
  "Gateway_get path w = request_loop ''GET'' None path w"

definition Gateway_put :: "string \<Rightarrow> json \<Rightarrow> world \<Rightarrow> (error + response option) \<times> world" where
  "Gateway_put path d w = request_loop ''PUT'' (Some d) path w"

section \<open>Strings\<close>

text \<open>
  Python strings are sequences of code points; here a character is one of the code
  points 0 to 255 (the program's own texts are ASCII). \<open>is_space\<close> is \<open>str.isspace\<close>
  on that range, \<open>is_linebreak\<close> the line boundaries of \<open>str.splitlines\<close>.
\<close>

definition is_space :: "char \<Rightarrow> bool" where
  "is_space c = (c \<in> {CHR 0x09, CHR 0x0A, CHR 0x0B, CHR 0x0C, CHR 0x0D, CHR 0x1C, CHR 0x1D,
                        CHR 0x1E, CHR 0x1F, CHR 0x20, CHR 0x85, CHR 0xA0})"

definition is_linebreak :: "char \<Rightarrow> bool" where
  "is_linebreak c = (c \<in> {CHR 0x0A, CHR 0x0B, CHR 0x0C, CHR 0x0D, CHR 0x1C, CHR 0x1D,
                            CHR 0x1E, CHR 0x85})"

definition lstrip :: "string \<Rightarrow> string" where
  "lstrip s = dropWhile is_space s"

definition rstrip :: "string \<Rightarrow> string" where
  "rstrip s = rev (dropWhile is_space (rev s))"

definition strip :: "string \<Rightarrow> string" where
  "strip s = rstrip (lstrip s)"

text \<open>
  \<open>str.expandtabs()\<close> with the default tab size 8: the column starts again after a
  line feed or a carriage return.
\<close>

fun expandtabs_from :: "nat \<Rightarrow> string \<Rightarrow> string" where
  "expandtabs_from col [] = []"
| "expandtabs_from col (c # cs) =
     (if c = CHR 0x09 then
        replicate (8 - col mod 8) CHR 0x20 @ expandtabs_from (col + (8 - col mod 8)) cs
      else c # expandtabs_from (if c = CHR 0x0A \<or> c = CHR 0x0D then 0 else col + 1) cs)"

definition expandtabs :: "string \<Rightarrow> string" where
  "expandtabs s = expandtabs_from 0 s"

text \<open>
  \<open>str.splitlines()\<close>: \<open>acc\<close> is the current line, reversed. A carriage return
  followed by a line feed is one boundary; a final boundary opens no further line.
\<close>

fun splitlines_from :: "string \<Rightarrow> string \<Rightarrow> string list" where
  "splitlines_from acc [] = (if acc = [] then [] else [rev acc])"
| "splitlines_from acc [c] =
     (if is_linebreak c then [rev acc] else [rev (c # acc)])"
| "splitlines_from acc (c # d # cs) =
     (if c = CHR 0x0D \<and> d = CHR 0x0A then rev acc # splitlines_from [] cs
      else if is_linebreak c then rev acc # splitlines_from [] (d # cs)
      else splitlines_from (c # acc) (d # cs))"

definition splitlines :: "string \<Rightarrow> string list" where
  "splitlines s = splitlines_from [] s"

text \<open>\<open>'\n'.join(xs)\<close>\<close>

fun join_lines :: "string list \<Rightarrow> string" where
  "join_lines [] = []"
| "join_lines [x] = x"
| "join_lines (x # y # ys) = x @ CHR 0x0A # join_lines (y # ys)"

section \<open>The function trim (src/cli/command_line.py)\<close>

text \<open>Lengths and the indentation are Python integers.\<close>

definition sys_maxsize :: int where
  "sys_maxsize = 9223372036854775807"

text \<open>The first loop of \<open>trim\<close>: the minimum indentation of the non-blank lines.\<close>

definition min_indent :: "string list \<Rightarrow> int" where
  "min_indent ls =
     fold (\<lambda>line indent.
             (let stripped = lstrip line in
              if stripped \<noteq> []
              then min indent (int (length line) - int (length stripped))
              else indent))
          ls sys_maxsize"

text \<open>The two \<open>while\<close> loops that pop blank lines off the end and off the front.\<close>

definition pop_trailing :: "string list \<Rightarrow> string list" where
  "pop_trailing trimmed = rev (dropWhile (\<lambda>l. l = []) (rev trimmed))"

definition pop_leading :: "string list \<Rightarrow> string list" where
  "pop_leading trimmed = dropWhile (\<lambda>l. l = []) trimmed"

definition trim :: "string \<Rightarrow> error + string" where
  "trim docstring =
     (if docstring = [] then Inr []
      else
        (case splitlines (expandtabs docstring) of
           [] \<Rightarrow> Inl (IndexError ''list index out of range'')
         | first # others \<Rightarrow>
             (let indent = min_indent others;
                  trimmed = strip first #
                    (if indent < sys_maxsize
                     then map (\<lambda>line. rstrip (drop (nat indent) line)) others
                     else [])
              in Inr (join_lines (pop_leading (pop_trailing trimmed))))))"

text \<open>
  \<open>doc.format(command=arg)\<close>, for the replacement fields that are a plain name:
  \<open>{command}\<close> is replaced, another name is a KeyError, an empty or numeric name an
  IndexError (there are no positional arguments), \<open>{{\<close> and \<open>}}\<close> are braces, a single
  brace is a ValueError. Fields with a conversion, a format specification, an
  attribute or an index are not described.
\<close>

definition format_field :: "string \<Rightarrow> string \<Rightarrow> error + string" where
  "format_field name arg =
     (if list_ex (\<lambda>c. c \<in> {CHR ''.'', CHR ''['', CHR ''!'', CHR '':'', CHR ''{''}) name
      then Inl (Unmodelled ''replacement field'')
      else if list_all (\<lambda>c. c \<in> set ''0123456789'') name
      then Inl (IndexError ''Replacement index out of range for positional args tuple'')
      else if name = ''command'' then Inr arg
      else Inl (KeyError name))"

function format_command :: "string \<Rightarrow> string \<Rightarrow> error + string" where
  "format_command [] arg = Inr []"
| "format_command (c # cs) arg =
     (if c = CHR ''{'' then
        (case cs of
           [] \<Rightarrow> Inl (ValueError ''Single { encountered in format string'')
         | d # ds \<Rightarrow>
             if d = CHR ''{'' then map_sum id (\<lambda>r. CHR ''{'' # r) (format_command ds arg)
             else if CHR ''}'' \<notin> set cs
             then Inl (ValueError ''expected } before end of string'')
             else
               (case format_field (takeWhile (\<lambda>x. x \<noteq> CHR ''}'') cs) arg of
                  Inl e \<Rightarrow> Inl e
                | Inr v \<Rightarrow>
                    map_sum id (\<lambda>r. v @ r)
                      (format_command (tl (dropWhile (\<lambda>x. x \<noteq> CHR ''}'') cs)) arg)))
      else if c = CHR ''}'' then
        (case cs of
           [] \<Rightarrow> Inl (ValueError ''Single } encountered in format string'')
         | d # ds \<Rightarrow>
             if d = CHR ''}'' then map_sum id (\<lambda>r. CHR ''}'' # r) (format_command ds arg)
             else Inl (ValueError ''Single } encountered in format string''))
      else map_sum id (\<lambda>r. c # r) (format_command cs arg))"
  by pat_completeness auto
termination
proof (relation "measure (\<lambda>(s, arg). length s)")
  show "wf (measure (\<lambda>(s, arg). length s))" by simp
next
  fix c :: char and cs :: string and arg :: string
  have "length (tl (dropWhile (\<lambda>x. x \<noteq> CHR ''}'') cs)) \<le> length cs"
    using length_dropWhile_le [of "\<lambda>x. x \<noteq> CHR ''}''" cs] by simp
  then show "((tl (dropWhile (\<lambda>x. x \<noteq> CHR ''}'') cs), arg), (c # cs, arg))
                \<in> measure (\<lambda>(s, arg). length s)"
    by simp
qed simp_all

declare format_command.simps [simp del]

section \<open>The commands and their documentation\<close>

text \<open>
  The \<open>__doc__\<close> of each handler \<open>do_*\<close>, as written in the source (line breaks and
  indentation included).
\<close>

definition doc_CommandLineBase_do_help :: string where
  "doc_CommandLineBase_do_help =
     ''List available commands with '' @ [CHR 0x27] @ ''help'' @ [CHR 0x27] @
     '' or detailed help with'' @ [CHR 0x0A] @ ''        '' @ [CHR 0x27] @ ''help cmd'' @
     [CHR 0x27] @ ''.'' @ [CHR 0x0A] @ [CHR 0x0A] @ ''        ''"

definition doc_CommandLineBase_do_quit :: string where
  "doc_CommandLineBase_do_quit =
     ''Exits from the program.''"

definition doc_CommandLine_do_gateway :: string where
  "doc_CommandLine_do_gateway =
     ''cli> gateway gateway-name'' @ [CHR 0x0A] @ [CHR 0x0A] @
     ''        Connect to the indicated gateway.'' @ [CHR 0x0A] @ ''        ''"

definition doc_CommandLine_do_gateways :: string where
  "doc_CommandLine_do_gateways =
     ''cli> gateways'' @ [CHR 0x0A] @ [CHR 0x0A] @ ''        List configured gateways.'' @
     [CHR 0x0A] @ [CHR 0x0A] @ ''        ''"

definition doc_CommandLine_do_args :: string where
  "doc_CommandLine_do_args =
     ''Prints out the command line arguments.''"

definition doc_CommandLine_do_echo :: string where
  "doc_CommandLine_do_echo =
     ''Prints the rest of the line to the output.'' @ [CHR 0x0A] @ [CHR 0x0A] @
     ''        This is mostly useful when processing from a script.'' @ [CHR 0x0A] @
     ''        ''"

definition doc_GatewayCommandLine_do_device :: string where
  "doc_GatewayCommandLine_do_device =
     ''cli gateway-name> device device-id'' @ [CHR 0x0A] @ [CHR 0x0A] @
     ''        Sets the current device.'' @ [CHR 0x0A] @ ''        ''"

definition doc_GatewayCommandLine_do_devices :: string where
  "doc_GatewayCommandLine_do_devices =
     ''cli gateway-name> devices'' @ [CHR 0x0A] @ [CHR 0x0A] @
     ''        Prints a list of devices that the gateway knows about.'' @ [CHR 0x0A] @
     ''        ''"

definition doc_GatewayCommandLine_do_thing :: string where
  "doc_GatewayCommandLine_do_thing =
     ''cli gateway-name> thing thing-id'' @ [CHR 0x0A] @ [CHR 0x0A] @
     ''        Sets the current thing.'' @ [CHR 0x0A] @ ''        ''"

definition doc_GatewayCommandLine_do_things :: string where
  "doc_GatewayCommandLine_do_things =
     ''cli gateway-name> things'' @ [CHR 0x0A] @ [CHR 0x0A] @
     ''        Prints a list of things that the gateway knows about.'' @ [CHR 0x0A] @
     ''        ''"

definition doc_GatewayDeviceCommandLine_do_adapter_devices :: string where
  "doc_GatewayDeviceCommandLine_do_adapter_devices =
     ''cli gateway-name> adapter-devices'' @ [CHR 0x0A] @ [CHR 0x0A] @
     ''      Sends a command to the adapter to report its devices.'' @ [CHR 0x0A] @
     ''      The information will show up on the gateway console.'' @ [CHR 0x0A] @
     ''      ''"

definition doc_GatewayDeviceCommandLine_do_adapter_info :: string where
  "doc_GatewayDeviceCommandLine_do_adapter_info =
     ''cli gateway-name> adapter-info'' @ [CHR 0x0A] @ [CHR 0x0A] @
     ''      Sends a command to the adapter to report info on a device.'' @ [CHR 0x0A] @
     ''      The information will show up on the gateway console.'' @ [CHR 0x0A] @
     ''      ''"

definition doc_GatewayDeviceCommandLine_do_bind :: string where
  "doc_GatewayDeviceCommandLine_do_bind =
     ''cli gateway-name device-id> bind endpoint clusterId'' @ [CHR 0x0A] @ [CHR 0x0A] @
     ''      Binds an endpoint/cluster to the gateway. Note that this'' @ [CHR 0x0A] @
     ''      command just initiates the bind. You'' @ [CHR 0x27] @
     ''ll need to look at the'' @ [CHR 0x0A] @ ''      gateway log to see the results.'' @
     [CHR 0x0A] @ ''      ''"

definition doc_GatewayDeviceCommandLine_do_bindings :: string where
  "doc_GatewayDeviceCommandLine_do_bindings =
     ''cli gateway-name device-id> bindings'' @ [CHR 0x0A] @ [CHR 0x0A] @
     ''      Queries the current bindings from the current device. Note'' @ [CHR 0x0A] @
     ''      that this command just initiates the bindings table retrieval.'' @
     [CHR 0x0A] @ ''      You'' @ [CHR 0x27] @
     ''ll need to look at the gateway log to see the results.'' @ [CHR 0x0A] @ ''      ''"

definition doc_GatewayDeviceCommandLine_do_debug :: string where
  "doc_GatewayDeviceCommandLine_do_debug =
     ''cli gateway-name device-id> debug [[no]flow] [[no]frames] [[no]detail]'' @
     [CHR 0x0A] @ [CHR 0x0A] @ ''        Turns on frame dumping/debugging.'' @ [CHR 0x0A] @
     ''        ''"

definition doc_GatewayDeviceCommandLine_do_discover :: string where
  "doc_GatewayDeviceCommandLine_do_discover =
     ''cli gateway-name device-id> discover [endpointNum [clusterId]]'' @ [CHR 0x0A] @
     [CHR 0x0A] @
     ''        Discovers attributes for the various clusters associated with'' @
     [CHR 0x0A] @ ''        a device.'' @ [CHR 0x0A] @ ''        ''"

definition doc_GatewayDeviceCommandLine_do_info :: string where
  "doc_GatewayDeviceCommandLine_do_info =
     ''cli gateway-name device-id> info'' @ [CHR 0x0A] @ [CHR 0x0A] @
     ''        Prints information about the current device.'' @ [CHR 0x0A] @ ''        ''"

definition doc_GatewayDeviceCommandLine_do_read :: string where
  "doc_GatewayDeviceCommandLine_do_read =
     ''cli gateway-name device-id> read endpoint clusterId attrId [attrId...]'' @
     [CHR 0x0A] @ [CHR 0x0A] @
     ''      Reads one or more attributes from a zigbee device. Note that this'' @
     [CHR 0x0A] @ ''      command just initiates the read. You'' @ [CHR 0x27] @
     ''ll need to look at the gateway'' @ [CHR 0x0A] @ ''      log to see the results.'' @
     [CHR 0x0A] @ ''      ''"

definition doc_GatewayThingCommandLine_do_info :: string where
  "doc_GatewayThingCommandLine_do_info =
     ''cli gateway-name thing-id> info'' @ [CHR 0x0A] @ [CHR 0x0A] @
     ''        Prints information about the current thing.'' @ [CHR 0x0A] @ ''        ''"

definition doc_GatewayThingCommandLine_do_properties :: string where
  "doc_GatewayThingCommandLine_do_properties =
     ''cli gateway-name thing-id> properties'' @ [CHR 0x0A] @ [CHR 0x0A] @
     ''        Prints the properties associated with the current thing.'' @ [CHR 0x0A] @
     ''        ''"

definition doc_GatewayThingCommandLine_do_property :: string where
  "doc_GatewayThingCommandLine_do_property =
     ''cli gateway-name thing-id> property property-name'' @ [CHR 0x0A] @ [CHR 0x0A] @
     ''        Prints information about the indicated property.'' @ [CHR 0x0A] @
     ''        ''"

text \<open>
  The handlers of a shell, by command name, with their documentation: those of its
  own class first, then those of \<open>CommandLineBase\<close>. \<open>getattr(self, 'do_' + cmd)\<close>
  succeeds exactly for the names listed.
\<close>

definition base_commands :: "(string \<times> string) list" where
  "base_commands =
     [(''help'', doc_CommandLineBase_do_help),
      (''quit'', doc_CommandLineBase_do_quit)]"

fun commands :: "shell_kind \<Rightarrow> (string \<times> string) list" where
  "commands CommandLine =
     [(''gateway'', doc_CommandLine_do_gateway),
      (''gateways'', doc_CommandLine_do_gateways),
      (''args'', doc_CommandLine_do_args),
      (''echo'', doc_CommandLine_do_echo)] @ base_commands"
| "commands GatewayCommandLine =
     [(''device'', doc_GatewayCommandLine_do_device),
      (''devices'', doc_GatewayCommandLine_do_devices),
      (''thing'', doc_GatewayCommandLine_do_thing),
      (''things'', doc_GatewayCommandLine_do_things)] @ base_commands"
| "commands (GatewayDeviceCommandLine device) =
     [(''adapter_devices'', doc_GatewayDeviceCommandLine_do_adapter_devices),
      (''adapter_info'', doc_GatewayDeviceCommandLine_do_adapter_info),
      (''bind'', doc_GatewayDeviceCommandLine_do_bind),
      (''bindings'', doc_GatewayDeviceCommandLine_do_bindings),
      (''debug'', doc_GatewayDeviceCommandLine_do_debug),
      (''discover'', doc_GatewayDeviceCommandLine_do_discover),
      (''info'', doc_GatewayDeviceCommandLine_do_info),
      (''read'', doc_GatewayDeviceCommandLine_do_read)] @ base_commands"
| "commands (GatewayThingCommandLine thing) =
     [(''info'', doc_GatewayThingCommandLine_do_info),
      (''properties'', doc_GatewayThingCommandLine_do_properties),
      (''property'', doc_GatewayThingCommandLine_do_property)] @ base_commands"

section \<open>Helpers for the commands\<close>

text \<open>
  Sequencing of steps that may raise: the second step runs on the state the first one
  left, unless the first one raised.
\<close>

definition then_do ::
  "(error + 'a) \<times> world \<Rightarrow> ('a \<Rightarrow> world \<Rightarrow> (error + 'b) \<times> world) \<Rightarrow> (error + 'b) \<times> world" where
  "then_do r f = (case r of (Inl e, w) \<Rightarrow> (Inl e, w) | (Inr x, w) \<Rightarrow> f x w)"

definition lift :: "error + 'a \<Rightarrow> world \<Rightarrow> (error + 'a) \<times> world" where
  "lift r w = (r, w)"

text \<open>\<open>str.split()\<close>: the maximal runs of characters that are not white space.\<close>

fun split_words_from :: "string \<Rightarrow> string \<Rightarrow> string list" where
  "split_words_from acc [] = (if acc = [] then [] else [rev acc])"
| "split_words_from acc (c # cs) =
     (if is_space c
      then (if acc = [] then split_words_from [] cs else rev acc # split_words_from [] cs)
      else split_words_from (c # acc) cs)"

definition py_split :: "string \<Rightarrow> string list" where
  "py_split s = split_words_from [] s"

definition replace_char :: "char \<Rightarrow> char \<Rightarrow> string \<Rightarrow> string" where
  "replace_char a b s = map (\<lambda>c. if c = a then b else c) s"

text \<open>\<open>os.path.basename\<close>: what follows the last slash.\<close>

definition basename :: "string \<Rightarrow> string" where
  "basename p = rev (takeWhile (\<lambda>c. c \<noteq> CHR ''/'') (rev p))"

text \<open>\<open>('000' + s)[-4:]\<close>\<close>

definition last4 :: "string \<Rightarrow> string" where
  "last4 s = (let t = ''000'' @ s in drop (length t - 4) t)"

text \<open>
  \<open>str(x)\<close> as used by \<open>'{}'.format(x)\<close>, the concatenation \<open>prefix + x\<close> (a
  TypeError unless \<open>x\<close> is a string), \<open>len(x)\<close> and the iteration over a value.
\<close>

fun py_str :: "json \<Rightarrow> error + string" where
  "py_str (JStr s) = Inr s"
| "py_str (JNum n) = Inr (if n < 0 then CHR ''-'' # str_nat (nat (- n)) else str_nat (nat n))"
| "py_str (JBool b) = Inr (if b then ''True'' else ''False'')"
| "py_str JNull = Inr ''None''"
| "py_str (JArr xs) = Inl (Unmodelled ''str of a list'')"
| "py_str (JObj kvs) = Inl (Unmodelled ''str of a dict'')"

fun str_concat :: "string \<Rightarrow> json \<Rightarrow> error + string" where
  "str_concat p (JStr s) = Inr (p @ s)"
| "str_concat p j = Inl (TypeError ''can only concatenate str to str'')"

fun py_len :: "json \<Rightarrow> error + nat" where
  "py_len (JArr xs) = Inr (length xs)"
| "py_len (JObj kvs) = Inr (length kvs)"
| "py_len (JStr s) = Inr (length s)"
| "py_len j = Inl (TypeError ''object has no len()'')"

fun py_iter :: "json \<Rightarrow> error + json list" where
  "py_iter (JArr xs) = Inr xs"
| "py_iter (JObj kvs) = Inr (map (\<lambda>kv. JStr (fst kv)) kvs)"
| "py_iter (JStr s) = Inr (map (\<lambda>c. JStr [c]) s)"
| "py_iter j = Inl (TypeError ''object is not iterable'')"

text \<open>A list comprehension whose element expression may raise: the first error wins.\<close>

fun map_result :: "('a \<Rightarrow> error + 'b) \<Rightarrow> 'a list \<Rightarrow> error + 'b list" where
  "map_result f [] = Inr []"
| "map_result f (x # xs) =
     (case f x of
        Inl e \<Rightarrow> Inl e
      | Inr y \<Rightarrow> (case map_result f xs of Inl e \<Rightarrow> Inl e | Inr ys \<Rightarrow> Inr (y # ys)))"

text \<open>\<open>os.path.basename(thing['href'])\<close>\<close>

definition href_basename :: "json \<Rightarrow> error + string" where
  "href_basename thing =
     (case json_item thing ''href'' of
        Inl e \<Rightarrow> Inl e
      | Inr (JStr s) \<Rightarrow> Inr (basename s)
      | Inr j \<Rightarrow> Inl (TypeError ''expected str, bytes or os.PathLike object''))"

text \<open>
  \<open>print(a, b, ...)\<close> with the pieces already rendered: they are separated by
  spaces and followed by a newline.
\<close>

fun spaced :: "message list \<Rightarrow> message list" where
  "spaced [] = []"
| "spaced [m] = [m]"
| "spaced (m # n # ms) = m # Str '' '' # spaced (n # ms)"

definition print_pieces :: "message list \<Rightarrow> world \<Rightarrow> world" where
  "print_pieces ms w = w\<lparr>terminal := terminal w @ spaced ms @ [Str [CHR 0x0A]]\<rparr>"

text \<open>
  The two lines every debug command prints about its response; \<open>r.status_code\<close>
  raises AttributeError when \<open>put\<close> returned \<open>None\<close>.
\<close>

definition print_response :: "response option \<Rightarrow> world \<Rightarrow> (error + unit) \<times> world" where
  "print_response r w =
     (case r of
        None \<Rightarrow> (Inl (AttributeError ''status_code''), w)
      | Some resp \<Rightarrow>
          (Inr (), print_pieces [Str ''r.text ='', Str (resp_text resp)]
                     (print_pieces [Str ''r.status_code ='', Str (str_nat (status_code resp))] w)))"

section \<open>The remaining methods of class Gateway\<close>

text \<open>
  A method that returns \<open>None\<close> or a parsed JSON value returns \<open>JNull\<close> for \<open>None\<close>
  (Python does not tell the two apart either).
\<close>

definition json_or_none :: "response option \<Rightarrow> error + json" where
  "json_or_none r = (case r of None \<Rightarrow> Inr JNull | Some resp \<Rightarrow> response_json resp)"

definition Gateway_bind :: "json \<Rightarrow> string \<Rightarrow> string \<Rightarrow> world \<Rightarrow> (error + unit) \<times> world" where
  "Gateway_bind deviceId endpointNum clusterId w =
     then_do (lift (py_str deviceId) w) (\<lambda>d w1.
     then_do (Gateway_put (''/debug/device/'' @ d @ ''/cmd/bind'')
                (JObj [(''srcEndpoint'', JStr endpointNum), (''clusterId'', JStr clusterId)]) w1)
       (\<lambda>r w2. (Inr (), w2)))"

definition Gateway_bindings :: "json \<Rightarrow> world \<Rightarrow> (error + unit) \<times> world" where
  "Gateway_bindings deviceId w =
     then_do (lift (py_str deviceId) w) (\<lambda>d w1.
     then_do (Gateway_put (''/debug/device/'' @ d @ ''/cmd/bindings'') (JObj []) w1)
       (\<lambda>r w2. (Inr (), w2)))"

definition Gateway_debugCmd :: "json \<Rightarrow> string \<Rightarrow> json \<Rightarrow> world \<Rightarrow> (error + unit) \<times> world" where
  "Gateway_debugCmd deviceId cmd params w =
     then_do (lift (py_str deviceId) w) (\<lambda>d w1.
     then_do (Gateway_put (''/debug/device/'' @ d @ ''/cmd/'' @ cmd) params w1) print_response)"

definition Gateway_device :: "json \<Rightarrow> world \<Rightarrow> (error + json) \<times> world" where
  "Gateway_device name w =
     then_do (lift (str_concat ''/debug/device/'' name) w) (\<lambda>path w1.
     then_do (Gateway_get path w1) (\<lambda>r w2. (json_or_none r, w2)))"

definition Gateway_devices :: "world \<Rightarrow> (error + json) \<times> world" where
  "Gateway_devices w =
     then_do (Gateway_get ''/debug/devices'' w) (\<lambda>r w1.
       case r of
         None \<Rightarrow> (Inr JNull, w1)
       | Some resp \<Rightarrow>
           then_do (lift (response_json resp) w1) (\<lambda>j w2.
           then_do (lift (py_iter j) w2) (\<lambda>ds w3.
             (map_sum id JArr (map_result (\<lambda>device. json_item device ''id'') ds), w3))))"

definition Gateway_discoverAttr ::
  "json \<Rightarrow> string option \<Rightarrow> string option \<Rightarrow> world \<Rightarrow> (error + unit) \<times> world" where
  "Gateway_discoverAttr deviceId endpointNum clusterId w =
     then_do (lift (py_str deviceId) w) (\<lambda>d w1.
       (let params =
              (case endpointNum of
                 None \<Rightarrow> []
               | Some e \<Rightarrow> if e \<noteq> [] then [(''endpoint'', JStr e)] else []) @
              (case clusterId of
                 None \<Rightarrow> []
               | Some c \<Rightarrow> if c \<noteq> [] then [(''clusterId'', JStr c)] else [])
        in then_do (Gateway_put (''/debug/device/'' @ d @ ''/cmd/discoverAttr'') (JObj params) w1)
             print_response))"

definition Gateway_properties :: "string \<Rightarrow> world \<Rightarrow> (error + json) \<times> world" where
  "Gateway_properties ident w =
     then_do (Gateway_get (''/things/'' @ ident @ ''/properties'') w)
       (\<lambda>r w1. (json_or_none r, w1))"

definition Gateway_property :: "string \<Rightarrow> string \<Rightarrow> world \<Rightarrow> (error + json) \<times> world" where
  "Gateway_property ident propertyName w =
     then_do (Gateway_get (''/things/'' @ ident @ ''/properties/'' @ propertyName) w)
       (\<lambda>r w1. (json_or_none r, w1))"

definition Gateway_readAttr ::
  "json \<Rightarrow> string \<Rightarrow> int \<Rightarrow> string \<Rightarrow> string list \<Rightarrow> world \<Rightarrow> (error + unit) \<times> world" where
  "Gateway_readAttr deviceId endpointNum profileId clusterId attrIds w =
     then_do (lift (py_str deviceId) w) (\<lambda>d w1.
       (let u = ''/debug/device/'' @ d @ ''/cmd/readAttr'';
            params = JObj [(''endpoint'', JStr endpointNum), (''profileId'', JNum profileId),
                           (''clusterId'', JStr clusterId), (''attrId'', JArr (map JStr attrIds))];
            w2 = print_pieces [Str ''json.dumps(params) ='', Json_dumps_compact params]
                   (print_pieces [Str ''params ='', Python_repr params]
                      (print_pieces [Str ''url ='', Str u] w1))
        in then_do (Gateway_put u params w2) print_response))"

definition Gateway_thing :: "string \<Rightarrow> world \<Rightarrow> (error + json) \<times> world" where
  "Gateway_thing ident w =
     then_do (Gateway_get (''/things/'' @ ident) w) (\<lambda>r w1. (json_or_none r, w1))"

definition Gateway_things :: "bool \<Rightarrow> world \<Rightarrow> (error + json) \<times> world" where
  "Gateway_things info w =
     then_do (Gateway_get ''/things'' w) (\<lambda>r w1.
       case r of
         None \<Rightarrow> (Inr JNull, w1)
       | Some resp \<Rightarrow>
           then_do (lift (response_json resp) w1) (\<lambda>j w2.
             if info then (Inr j, w2)
             else
               then_do (lift (py_iter j) w2) (\<lambda>ts w3.
                 (map_sum id (\<lambda>names. JArr (map JStr names)) (map_result href_basename ts),
                  w3))))"

section \<open>The shells: class CommandLineBase and its subclasses\<close>

text \<open>
  A shell object is identified by its position \<open>self\<close> in the shell stack: a shell
  runs only between the push and the pop of \<open>auto_cmdloop\<close>, and what is pushed
  later lies above it.
\<close>

definition self_shell :: "nat \<Rightarrow> world \<Rightarrow> shell" where
  "self_shell self w = cmd_stack w ! self"

definition update_shell :: "nat \<Rightarrow> (shell \<Rightarrow> shell) \<Rightarrow> world \<Rightarrow> world" where
  "update_shell self f w = w\<lparr>cmd_stack := (cmd_stack w)[self := f (cmd_stack w ! self)]\<rparr>"

text \<open>
  \<open>CommandLineBase.__init__\<close>: the prompt fragment is \<open>cli\<close> for the first shell and
  the command last parsed by the shell on top of the stack otherwise (the subclasses
  other than \<open>CommandLine\<close> then replace it). \<open>prompt\<close> starts as the default of
  \<open>Cmd\<close>.
\<close>

definition CommandLineBase_init :: "shell_kind \<Rightarrow> string option \<Rightarrow> world \<Rightarrow> shell" where
  "CommandLineBase_init k fname w =
     \<lparr>kind = k, script_name = fname, line_num = 0, command = None,
      cmd_prompt = (if cmd_stack w = [] then JStr ''cli''
                    else (case command (last (cmd_stack w)) of
                            None \<Rightarrow> JNull
                          | Some c \<Rightarrow> JStr c)),
      cmdloop_executed = False, prompt = ''(Cmd) '', columns = screen_columns w\<rparr>"

text \<open>\<open>sep.join(xs)\<close>\<close>

fun join_with :: "string \<Rightarrow> string list \<Rightarrow> string" where
  "join_with sep [] = []"
| "join_with sep [x] = x"
| "join_with sep (x # y # ys) = x @ sep @ join_with sep (y # ys)"

definition update_prompt :: "nat \<Rightarrow> world \<Rightarrow> (error + unit) \<times> world" where
  "update_prompt self w =
     (if use_rawinput w then
        (case map_result (\<lambda>sh. case cmd_prompt sh of
                                  JStr s \<Rightarrow> Inr s
                                | _ \<Rightarrow> Inl (TypeError ''sequence item: expected str instance''))
                (cmd_stack w) of
           Inl e \<Rightarrow> (Inl e, w)
         | Inr prompts \<Rightarrow>
             (Inr (), update_shell self (\<lambda>sh. sh\<lparr>prompt := join_with '' '' prompts @ ''> ''\<rparr>) w))
      else (Inr (), update_shell self (\<lambda>sh. sh\<lparr>prompt := []\<rparr>) w))"

text \<open>\<open>self.stdout.write\<close>: the standard output of a shell is the output sink.\<close>

definition stdout_write :: "string \<Rightarrow> world \<Rightarrow> (error + unit) \<times> world" where
  "stdout_write s w =
     (case CommandLineOutput_write s (sink w) of
        (r, snk) \<Rightarrow> (r, w\<lparr>sink := snk\<rparr>))"

text \<open>
  \<open>CommandLineOutput.flush\<close> with \<open>write_prompt\<close>: the buffered text goes to the
  terminal and a new turn starts.
\<close>

definition CommandLineOutput_flush :: "world \<Rightarrow> world" where
  "CommandLineOutput_flush w =
     w\<lparr>terminal := terminal w @ [Str (buffered_output (sink w))],
       sink := (sink w)\<lparr>buffered_output := [], captured_output := Some [],
                         error_count := 0, fatal_count := 0\<rparr>\<rparr>"

text \<open>\<open>CommandLineBase.print\<close>\<close>

definition CommandLineBase_print :: "string \<Rightarrow> world \<Rightarrow> (error + unit) \<times> world" where
  "CommandLineBase_print s w = log_info (Str ''%s'') [s] w"

text \<open>
  \<open>word_len\<close> and \<open>print_cols\<close>. Row \<open>row\<close> holds the words at the positions
  \<open>row, row + nrows, ...\<close>, each padded on the right (\<open>'%-*s'\<close>), with one space
  between them; a row is printed when its last word has been added.
\<close>

definition word_len :: "string \<Rightarrow> error + int" where
  "word_len word =
     (case word of
        [] \<Rightarrow> Inl (IndexError ''string index out of range'')
      | c # cs \<Rightarrow> if c = CHR 0x1B then Inr (int (length word) - 11) else Inr (int (length word)))"

definition ljust :: "int \<Rightarrow> string \<Rightarrow> string" where
  "ljust n s = s @ replicate (nat \<bar>n\<bar> - length s) CHR 0x20"

fun print_lines :: "string list \<Rightarrow> world \<Rightarrow> (error + unit) \<times> world" where
  "print_lines [] w = (Inr (), w)"
| "print_lines (l # ls) w = then_do (CommandLineBase_print l w) (\<lambda>u w1. print_lines ls w1)"

definition print_cols :: "string list \<Rightarrow> nat \<Rightarrow> world \<Rightarrow> (error + unit) \<times> world" where
  "print_cols words termwidth w =
     (case map_result word_len words of
        Inl e \<Rightarrow> (Inl e, w)
      | Inr lens \<Rightarrow>
          (if lens = [] then (Inl (ValueError ''max() arg is an empty sequence''), w)
           else
             (let width = fold max (tl lens) (hd lens);
                  nwords = length words
              in if width + 1 = 0 then (Inl ZeroDivisionError, w)
                 else
                   (let ncols = max 1 ((int termwidth + 1) div (width + 1));
                        nrows = nat ((int nwords + ncols - 1) div ncols);
                        pad = (\<lambda>word. if hd word = CHR 0x1B then ljust (width + 11) word
                                       else ljust width word);
                        row_line = (\<lambda>row. join_with '' ''
                                      (map (\<lambda>i. pad (words ! i))
                                         (filter (\<lambda>i. i mod nrows = row) [0..<nwords])))
                    in print_lines (map row_line [0..<nrows]) w))))"

text \<open>
  What a handler hands back: its return value, or the new shell on which it calls
  \<open>auto_cmdloop('')\<close> as its last step (whose result it returns).
\<close>

datatype action = Return bool | Enter shell

definition raise_ValueError :: "string \<Rightarrow> world \<Rightarrow> (error + 'a) \<times> world" where
  "raise_ValueError msg w = (Inl (ValueError msg), w)"

definition returning :: "bool \<Rightarrow> (error + unit) \<times> world \<Rightarrow> (error + action) \<times> world" where
  "returning b r = then_do r (\<lambda>u w. (Inr (Return b), w))"

subsection \<open>CommandLineBase\<close>

definition do_quit :: "world \<Rightarrow> (error + action) \<times> world" where
  "do_quit w = (Inr (Return True), w\<lparr>quitting := True\<rparr>)"

text \<open>
  \<open>do_help\<close>. The list of all commands that \<open>Cmd.do_help\<close> prints for an empty
  argument is not described.
\<close>

definition nohelp :: "string \<Rightarrow> world \<Rightarrow> (error + action) \<times> world" where
  "nohelp arg w = returning False (stdout_write (''*** No help on '' @ arg @ [CHR 0x0A]) w)"

definition do_help :: "nat \<Rightarrow> string \<Rightarrow> world \<Rightarrow> (error + action) \<times> world" where
  "do_help self arg0 w =
     (if arg0 = [] then (Inl (Unmodelled ''Cmd.do_help''), w)
      else
        (let arg = replace_char CHR ''-'' CHR ''_'' arg0 in
         case map_of (commands (kind (self_shell self w))) arg of
           None \<Rightarrow> nohelp arg w
         | Some doc \<Rightarrow>
             if doc \<noteq> [] then
               then_do (lift (format_command doc arg) w) (\<lambda>doc1 w1.
               then_do (lift (trim doc1) w1) (\<lambda>t w2.
                 returning False (stdout_write (t @ [CHR 0x0A]) w2)))
             else nohelp arg w))"

subsection \<open>CommandLine\<close>

text \<open>
  \<open>do_gateway\<close>: \<open>set_gateway\<close>, the construction of the \<open>Gateway\<close> and of the
  \<open>GatewayCommandLine\<close>, whose prompt fragment is the gateway's URL.
\<close>

definition do_gateway :: "string \<Rightarrow> world \<Rightarrow> (error + action) \<times> world" where
  "do_gateway line w =
     (let args = py_split line in
      if length args \<noteq> 1
      then raise_ValueError (''Expecting 1 argument1, found '' @ str_nat (length args)) w
      else
        (let gateway_name = hd args in
         case GatewayConfig_set_root (session w) ''gateways'' gateway_name of
           Inl e \<Rightarrow> (Inl e, w)
         | Inr c \<Rightarrow>
             then_do (Gateway_init gateway_name (w\<lparr>session := c\<rparr>)) (\<lambda>u w1.
               (Inr (Enter ((CommandLineBase_init GatewayCommandLine None w1)
                              \<lparr>cmd_prompt := JStr (Gateway_url (client w1) [])\<rparr>)), w1))))"

text \<open>\<open>gateway_names\<close> is \<open>self.config.get('gateways').keys()\<close>.\<close>

fun info_each :: "string list \<Rightarrow> world \<Rightarrow> (error + unit) \<times> world" where
  "info_each [] w = (Inr (), w)"
| "info_each (n # ns) w = then_do (log_info (Str n) [] w) (\<lambda>u w1. info_each ns w1)"

definition do_gateways :: "world \<Rightarrow> (error + action) \<times> world" where
  "do_gateways w =
     (case GatewayConfig_get (session w) ''gateways'' of
        Inl e \<Rightarrow> (Inl e, w)
      | Inr (JObj kvs) \<Rightarrow> returning False (info_each (map fst kvs) w)
      | Inr j \<Rightarrow> (Inl (AttributeError ''keys''), w))"

definition do_args :: "string \<Rightarrow> world \<Rightarrow> (error + action) \<times> world" where
  "do_args line w =
     returning False (log_info (Str (''args line = '' @ [CHR 0x27] @ ''%s'' @ [CHR 0x27])) [line] w)"

definition do_echo :: "string \<Rightarrow> world \<Rightarrow> (error + action) \<times> world" where
  "do_echo line w = returning False (log_info (Str ''%s'') [line] w)"

subsection \<open>GatewayCommandLine\<close>

text \<open>
  \<open>sorted(names)\<close> of a list of strings. When the listed identifiers are not all
  strings the order Python would use (or its TypeError) is not described.
\<close>

definition sorted_strings :: "json \<Rightarrow> error + string list" where
  "sorted_strings j =
     (case j of
        JArr xs \<Rightarrow>
          (if list_all (\<lambda>x. case x of JStr s \<Rightarrow> True | _ \<Rightarrow> False) xs
           then Inr (sort (map (\<lambda>x. case x of JStr s \<Rightarrow> s | _ \<Rightarrow> []) xs))
           else Inl (Unmodelled ''sorted() of values that are not all strings''))
      | _ \<Rightarrow> Inl (Unmodelled ''sorted() of values that are not all strings''))"

definition do_device :: "string \<Rightarrow> world \<Rightarrow> (error + action) \<times> world" where
  "do_device line w =
     (let args = py_split line in
      if length args \<noteq> 1
      then raise_ValueError (''Expecting 1 argument, found '' @ str_nat (length args)) w
      else
        (let ident = hd args in
         then_do (Gateway_device (JStr ident) w) (\<lambda>device w1.
           if truthy device then
             then_do (lift (json_item device ''id'') w1) (\<lambda>p w2.
               (Inr (Enter ((CommandLineBase_init (GatewayDeviceCommandLine device) None w2)
                              \<lparr>cmd_prompt := p\<rparr>)), w2))
           else
             returning False
               (log_error (Str (''No device found with the id '' @ [CHR 0x22] @ ''%s'' @ [CHR 0x22]))
                  [ident] w1))))"

text \<open>
  \<open>do_devices\<close> asks the client directly (\<open>self.gateway.devices()\<close>), not through
  \<open>GatewayCommandLine.devices\<close>, which is the method that turns \<open>None\<close> into an
  error message and an empty list.
\<close>

definition do_devices :: "nat \<Rightarrow> world \<Rightarrow> (error + action) \<times> world" where
  "do_devices self w =
     then_do (Gateway_devices w) (\<lambda>devices w1.
     then_do (lift (py_len devices) w1) (\<lambda>n w2.
       if n > 0 then
         then_do (lift (sorted_strings devices) w2) (\<lambda>names w3.
           returning False (print_cols names (columns (self_shell self w3)) w3))
       else (Inr (Return False), w2)))"

definition GatewayCommandLine_devices :: "world \<Rightarrow> (error + json) \<times> world" where
  "GatewayCommandLine_devices w =
     then_do (Gateway_devices w) (\<lambda>devices w1.
       if devices = JNull then
         then_do (log_error (Str ''Are you running with debug enabled? (i.e. npm start -- -d)'')
                    [] w1)
           (\<lambda>u w2. (Inr (JArr []), w2))
       else (Inr devices, w1))"

definition do_thing :: "string \<Rightarrow> world \<Rightarrow> (error + action) \<times> world" where
  "do_thing line w =
     (let args = py_split line in
      if length args \<noteq> 1
      then raise_ValueError (''Expecting 1 argument, found '' @ str_nat (length args)) w
      else
        (let ident = hd args in
         then_do (Gateway_thing ident w) (\<lambda>thing w1.
           if truthy thing then
             then_do (lift (href_basename thing) w1) (\<lambda>p w2.
               (Inr (Enter ((CommandLineBase_init (GatewayThingCommandLine thing) None w2)
                              \<lparr>cmd_prompt := JStr p\<rparr>)), w2))
           else
             returning False
               (log_error (Str (''No thing found with the id '' @ [CHR 0x22] @ ''%s'' @ [CHR 0x22]))
                  [ident] w1))))"

definition do_things :: "nat \<Rightarrow> string \<Rightarrow> world \<Rightarrow> (error + action) \<times> world" where
  "do_things self line w =
     (let args = py_split line;
          info = (length args > 0 \<and> hd args = ''-l'')
      in then_do (Gateway_things info w) (\<lambda>things w1.
         then_do (lift (py_len things) w1) (\<lambda>n w2.
           if n > 0 then
             (if info then returning False (log_info (Json_dumps things) [] w2)
              else
                then_do (lift (sorted_strings things) w2) (\<lambda>names w3.
                  returning False (print_cols names (columns (self_shell self w3)) w3)))
           else (Inr (Return False), w2))))"

subsection \<open>GatewayDeviceCommandLine\<close>

text \<open>\<open>x in container\<close> for a string \<open>x\<close>, and the substring test it is on a string.\<close>

fun is_substring :: "string \<Rightarrow> string \<Rightarrow> bool" where
  "is_substring x [] = (x = [])"
| "is_substring x (c # cs) = (take (length x) (c # cs) = x \<or> is_substring x cs)"

fun py_contains :: "json \<Rightarrow> string \<Rightarrow> error + bool" where
  "py_contains (JObj kvs) x = Inr (map_of kvs x \<noteq> None)"
| "py_contains (JArr xs) x = Inr (JStr x \<in> set xs)"
| "py_contains (JStr s) x = Inr (is_substring x s)"
| "py_contains j x = Inl (TypeError ''argument is not iterable'')"

definition do_adapter_devices :: "json \<Rightarrow> world \<Rightarrow> (error + action) \<times> world" where
  "do_adapter_devices device w =
     then_do (lift (json_item device ''id'') w) (\<lambda>ident w1.
       returning False (Gateway_debugCmd ident ''devices'' (JObj []) w1))"

definition do_adapter_info :: "json \<Rightarrow> string \<Rightarrow> world \<Rightarrow> (error + action) \<times> world" where
  "do_adapter_info device line w =
     (let args = py_split line;
          params = (if length args = 1 then [(''addr64'', JStr (hd args))] else [])
      in then_do (lift (json_item device ''id'') w) (\<lambda>ident w1.
           returning False (Gateway_debugCmd ident ''info'' (JObj params) w1)))"

definition do_bind :: "json \<Rightarrow> string \<Rightarrow> world \<Rightarrow> (error + action) \<times> world" where
  "do_bind device line w =
     (let args = py_split line in
      if length args \<noteq> 2
      then raise_ValueError (''Expecting 2 arguments, found '' @ str_nat (length args)) w
      else
        (let endpointNum = args ! 0;
             clusterId = last4 (args ! 1)
         in then_do (lift (json_item device ''id'') w) (\<lambda>ident w1.
              returning False (Gateway_bind ident endpointNum clusterId w1))))"

definition do_bindings :: "json \<Rightarrow> world \<Rightarrow> (error + action) \<times> world" where
  "do_bindings device w =
     then_do (lift (json_item device ''id'') w) (\<lambda>ident w1.
       returning False (Gateway_bindings ident w1))"

text \<open>The loop of \<open>do_debug\<close> over the options: one step.\<close>

definition debug_option :: "string \<Rightarrow> (string \<times> json) list \<times> world \<Rightarrow> (string \<times> json) list \<times> world" where
  "debug_option arg pw =
     (case pw of (params, w) \<Rightarrow>
        if arg = ''flow'' then (AList.update ''debugFlow'' (JBool True) params, w)
        else if arg = ''noflow'' then (AList.update ''debugFlow'' (JBool False) params, w)
        else if arg = ''frames'' then (AList.update ''debugFrames'' (JBool True) params, w)
        else if arg = ''noframes'' then (AList.update ''debugFrames'' (JBool False) params, w)
        else if arg = ''detail'' then (AList.update ''debugDumpFrameDetail'' (JBool True) params, w)
        else if arg = ''nodetail'' then (AList.update ''debugDumpFrameDetail'' (JBool False) params, w)
        else (params, print_pieces [Str ''Unrecognized option:'', Str arg, Str ''(ignored)''] w))"

definition do_debug :: "json \<Rightarrow> string \<Rightarrow> world \<Rightarrow> (error + action) \<times> world" where
  "do_debug device line w =
     (case fold debug_option (py_split line) ([], w) of
        (params, w1) \<Rightarrow>
          then_do (lift (json_item device ''id'') w1) (\<lambda>ident w2.
            returning False (Gateway_debugCmd ident ''debug'' (JObj params) w2)))"

definition do_discover :: "json \<Rightarrow> string \<Rightarrow> world \<Rightarrow> (error + action) \<times> world" where
  "do_discover device line w =
     (let args = py_split line;
          endpointNum = (if length args \<ge> 1 then Some (args ! 0) else None);
          clusterId = (if length args \<ge> 2 then Some (last4 (args ! 1)) else None)
      in then_do (lift (json_item device ''id'') w) (\<lambda>ident w1.
           returning False (Gateway_discoverAttr ident endpointNum clusterId w1)))"

text \<open>\<open>do_info\<close> replaces \<open>self.device\<close> by what the gateway returns now.\<close>

definition GatewayDeviceCommandLine_do_info ::
  "nat \<Rightarrow> json \<Rightarrow> world \<Rightarrow> (error + action) \<times> world" where
  "GatewayDeviceCommandLine_do_info self device w =
     then_do (lift (json_item device ''id'') w) (\<lambda>ident w1.
     then_do (Gateway_device ident w1) (\<lambda>device1 w2.
       returning False
         (log_info (Json_dumps device1) []
            (update_shell self (\<lambda>sh. sh\<lparr>kind := GatewayDeviceCommandLine device1\<rparr>) w2))))"

definition do_read :: "json \<Rightarrow> string \<Rightarrow> world \<Rightarrow> (error + action) \<times> world" where
  "do_read device line w =
     (let args = py_split line in
      if length args < 3
      then raise_ValueError (''Expecting 2 or more arguments, found '' @ str_nat (length args)) w
      else
        (let endpointNum = args ! 0;
             clusterId = last4 (args ! 1);
             attrIds = drop 2 args
         in then_do (lift (py_contains device ''activeEndpoints'') w) (\<lambda>has w1.
              if has then
                then_do (lift (json_item device ''activeEndpoints'') w1) (\<lambda>eps w2.
                then_do (lift (py_contains eps endpointNum) w2) (\<lambda>known w3.
                  if \<not> known then raise_ValueError (''Unknown endpoint: '' @ endpointNum) w3
                  else
                    then_do (lift (json_item eps endpointNum) w3) (\<lambda>endpoint w4.
                    then_do (lift (json_item device ''id'') w4) (\<lambda>ident w5.
                      returning False
                        (Gateway_readAttr ident endpointNum 260 clusterId attrIds w5)))))
              else
                returning False
                  (log_error (Str ''No activeEndpoints found in device'') [] w1))))"

subsection \<open>GatewayThingCommandLine\<close>

definition GatewayThingCommandLine_do_info ::
  "nat \<Rightarrow> json \<Rightarrow> world \<Rightarrow> (error + action) \<times> world" where
  "GatewayThingCommandLine_do_info self thing w =
     then_do (lift (href_basename thing) w) (\<lambda>ident w1.
     then_do (Gateway_thing ident w1) (\<lambda>thing1 w2.
       returning False
         (log_info (Json_dumps thing1) []
            (update_shell self (\<lambda>sh. sh\<lparr>kind := GatewayThingCommandLine thing1\<rparr>) w2))))"

definition do_properties :: "json \<Rightarrow> world \<Rightarrow> (error + action) \<times> world" where
  "do_properties thing w =
     then_do (lift (href_basename thing) w) (\<lambda>ident w1.
     then_do (Gateway_properties ident w1) (\<lambda>properties w2.
       returning False (log_info (Json_dumps properties) [] w2)))"

fun property_each :: "json \<Rightarrow> string list \<Rightarrow> world \<Rightarrow> (error + unit) \<times> world" where
  "property_each thing [] w = (Inr (), w)"
| "property_each thing (propertyName # rest) w =
     then_do (lift (href_basename thing) w) (\<lambda>ident w1.
     then_do (Gateway_property ident propertyName w1) (\<lambda>property w2.
     then_do (log_info (Json_dumps property) [] w2) (\<lambda>u w3.
       property_each thing rest w3)))"

definition do_property :: "json \<Rightarrow> string \<Rightarrow> world \<Rightarrow> (error + action) \<times> world" where
  "do_property thing line w = returning False (property_each thing (py_split line) w)"

subsection \<open>Parsing and dispatch\<close>

text \<open>
  \<open>Cmd.identchars\<close> after \<open>CommandLineBase.__init__\<close> has added the hyphen.
\<close>

definition identchars :: "char \<Rightarrow> bool" where
  "identchars c =
     (c \<in> set ''abcdefghijklmnopqrstuvwxyzABCDEFGHIJKLMNOPQRSTUVWXYZ0123456789_-'')"

text \<open>
  \<open>Cmd.parseline\<close> of the standard library (no shell has a \<open>do_shell\<close>): the command,
  the argument text and the stripped line; the first two are \<open>None\<close> for an empty
  line and for a line that starts with an exclamation mark.
\<close>

definition Cmd_parseline :: "string \<Rightarrow> string option \<times> string option \<times> string" where
  "Cmd_parseline line0 =
     (let line = strip line0 in
      if line = [] then (None, None, line)
      else if hd line = CHR ''!'' then (None, None, line)
      else
        (let line1 = (if hd line = CHR ''?'' then ''help '' @ tl line else line);
             i = length (takeWhile identchars line1)
         in (Some (take i line1), Some (strip (drop i line1)), line1)))"

text \<open>
  \<open>CommandLineBase.parseline\<close> records the command as typed and hands back the
  command with hyphens turned into underscores.
\<close>

definition CommandLineBase_parseline ::
  "nat \<Rightarrow> string \<Rightarrow> world \<Rightarrow> (string option \<times> string option \<times> string) \<times> world" where
  "CommandLineBase_parseline self line0 w =
     (case Cmd_parseline line0 of
        (cmd, arg, line) \<Rightarrow>
          ((case cmd of
              None \<Rightarrow> None
            | Some c \<Rightarrow> Some (replace_char CHR ''-'' CHR ''_'' c),
            arg, line),
           update_shell self (\<lambda>sh. sh\<lparr>command := cmd\<rparr>) w))"

text \<open>\<open>CommandLineBase.default\<close>\<close>

definition default_cmd :: "string \<Rightarrow> world \<Rightarrow> (error + action) \<times> world" where
  "default_cmd line w =
     raise_ValueError (''Unrecognized command: '' @ [CHR 0x27] @ line @ [CHR 0x27]) w"

text \<open>The call \<open>func(arg)\<close> of the handler \<open>do_<cmd>\<close> of a shell.\<close>

definition call_handler ::
  "nat \<Rightarrow> shell_kind \<Rightarrow> string \<Rightarrow> string \<Rightarrow> world \<Rightarrow> (error + action) \<times> world" where
  "call_handler self k cmd arg w =
     (if cmd = ''help'' then do_help self arg w
      else if cmd = ''quit'' then do_quit w
      else
        (case k of
           CommandLine \<Rightarrow>
             if cmd = ''gateway'' then do_gateway arg w
             else if cmd = ''gateways'' then do_gateways w
             else if cmd = ''args'' then do_args arg w
             else if cmd = ''echo'' then do_echo arg w
             else (Inl (AttributeError (''do_'' @ cmd)), w)
         | GatewayCommandLine \<Rightarrow>
             if cmd = ''device'' then do_device arg w
             else if cmd = ''devices'' then do_devices self w
             else if cmd = ''thing'' then do_thing arg w
             else if cmd = ''things'' then do_things self arg w
             else (Inl (AttributeError (''do_'' @ cmd)), w)
         | GatewayDeviceCommandLine device \<Rightarrow>
             if cmd = ''adapter_devices'' then do_adapter_devices device w
             else if cmd = ''adapter_info'' then do_adapter_info device arg w
             else if cmd = ''bind'' then do_bind device arg w
             else if cmd = ''bindings'' then do_bindings device w
             else if cmd = ''debug'' then do_debug device arg w
             else if cmd = ''discover'' then do_discover device arg w
             else if cmd = ''info'' then GatewayDeviceCommandLine_do_info self device w
             else if cmd = ''read'' then do_read device arg w
             else (Inl (AttributeError (''do_'' @ cmd)), w)
         | GatewayThingCommandLine thing \<Rightarrow>
             if cmd = ''info'' then GatewayThingCommandLine_do_info self thing w
             else if cmd = ''properties'' then do_properties thing w
             else if cmd = ''property'' then do_property thing arg w
             else (Inl (AttributeError (''do_'' @ cmd)), w)))"

text \<open>
  \<open>Cmd.onecmd\<close> of the standard library, with \<open>emptyline\<close> and \<open>default\<close> as
  \<open>CommandLineBase\<close> overrides them. \<open>getattr(self, 'do_' + cmd)\<close> finds a handler
  exactly when the command is in the table of the shell.
\<close>

definition Cmd_onecmd :: "nat \<Rightarrow> string \<Rightarrow> world \<Rightarrow> (error + action) \<times> world" where
  "Cmd_onecmd self line0 w =
     (case CommandLineBase_parseline self line0 w of
        ((cmd, arg, line), w1) \<Rightarrow>
          if line = [] then (Inr (Return False), w1)
          else
            (case cmd of
               None \<Rightarrow> default_cmd line w1
             | Some c \<Rightarrow>
                 if c = [] then default_cmd line w1
                 else if map_of (commands (kind (self_shell self w1))) c = None
                 then default_cmd line w1
                 else call_handler self (kind (self_shell self w1)) c
                        (case arg of None \<Rightarrow> [] | Some a \<Rightarrow> a) w1))"

text \<open>\<open>CommandLineBase.handle_exception\<close>, with \<open>log = self.log.error\<close>.\<close>

definition handle_exception :: "string \<Rightarrow> world \<Rightarrow> (error + bool) \<times> world" where
  "handle_exception err w =
     (case cmd_stack w of
        [] \<Rightarrow> (Inl (IndexError ''list index out of range''), w)
      | base # others \<Rightarrow>
          (case script_name base of
             Some fname \<Rightarrow>
               then_do (log_error (Str ''File: %s Line: %d Error: %s'')
                          [fname, str_nat (line_num base), err] w)
                 (\<lambda>u w1. (Inr True, w1\<lparr>quitting := True\<rparr>))
           | None \<Rightarrow>
               then_do (log_error (Str ''Error: %s'') [err] w) (\<lambda>u w1. (Inr False, w1))))"

text \<open>
  The first part of \<open>CommandLineBase.onecmd\<close>: the line counter, the end-of-input
  sentinel and the comment (what follows the first \<open>#\<close> is cut off and the rest is
  stripped; a line without \<open>#\<close> is left as it is). \<open>Inl\<close> is the value returned
  for the sentinel, \<open>Inr\<close> the line handed to \<open>Cmd.onecmd\<close>.
\<close>

definition strip_comment :: "string \<Rightarrow> string" where
  "strip_comment line =
     (if CHR ''#'' \<in> set line then strip (takeWhile (\<lambda>c. c \<noteq> CHR ''#'') line) else line)"

definition onecmd_prepare :: "nat \<Rightarrow> string \<Rightarrow> world \<Rightarrow> (bool + string) \<times> world" where
  "onecmd_prepare self line w =
     (let w1 = update_shell self (\<lambda>sh. sh\<lparr>line_num := line_num sh + 1\<rparr>) w in
      if line = ''EOF'' then
        (Inl True, if use_rawinput w1 then py_print [] w1 else w1)
      else (Inr (strip_comment line), w1))"

text \<open>
  The reading of one line in \<open>Cmd.cmdloop\<close>. With \<open>use_rawinput\<close> it is
  \<open>input(self.prompt)\<close>, where an end of file gives the line \<open>EOF\<close>; otherwise the
  prompt is written to the sink, the sink is flushed, and the line is read with
  \<open>readline\<close> and loses its line end.
\<close>

definition rstrip_crlf :: "string \<Rightarrow> string" where
  "rstrip_crlf s = rev (dropWhile (\<lambda>c. c = CHR 0x0D \<or> c = CHR 0x0A) (rev s))"

definition read_command :: "nat \<Rightarrow> world \<Rightarrow> (error + string) \<times> world" where
  "read_command self w =
     (if use_rawinput w then
        (case read_key (show_prompt (prompt (self_shell self w)) w) of
           (Inl e, w1) \<Rightarrow> if e = EOFError then (Inr ''EOF'', w1) else (Inl e, w1)
         | (Inr line, w1) \<Rightarrow> (Inr line, w1))
      else
        then_do (stdout_write (prompt (self_shell self w)) w) (\<lambda>u w1.
          (case read_key (CommandLineOutput_flush w1) of
             (Inl e, w2) \<Rightarrow> if e = EOFError then (Inr ''EOF'', w2) else (Inl e, w2)
           | (Inr line, w2) \<Rightarrow> (Inr (rstrip_crlf line), w2))))"

subsection \<open>The loops\<close>

text \<open>
  The \<open>except ValueError\<close> of \<open>CommandLineBase.onecmd\<close>: a ValueError is handed to
  \<open>handle_exception\<close>, any other exception goes on.
\<close>

definition except_ValueError :: "error \<Rightarrow> world \<Rightarrow> (error + bool) \<times> world" where
  "except_ValueError e w =
     (case e of
        ValueError msg \<Rightarrow> handle_exception msg w
      | _ \<Rightarrow> (Inl e, w))"

text \<open>
  \<open>CommandLineBase.cmdloop\<close> up to the loop of \<open>Cmd.cmdloop\<close>: the flag, and
  \<open>preloop\<close> with its \<open>update_prompt\<close>.
\<close>

definition cmdloop_enter :: "nat \<Rightarrow> world \<Rightarrow> (error + unit) \<times> world" where
  "cmdloop_enter self w =
     update_prompt self (update_shell self (\<lambda>sh. sh\<lparr>cmdloop_executed := True\<rparr>) w)"

text \<open>
  The end of \<open>auto_cmdloop_internal\<close>: the \<open>except KeyboardInterrupt\<close> and the final
  test of the quitting flag (\<open>None\<close> is \<open>False\<close>).
\<close>

definition internal_finish :: "(error + unit) \<times> world \<Rightarrow> (error + bool) \<times> world" where
  "internal_finish r =
     (case r of
        (Inl e, w) \<Rightarrow>
          if e = KeyboardInterrupt then (Inr True, (py_print [] w)\<lparr>quitting := True\<rparr>)
          else (Inl e, w)
      | (Inr u, w) \<Rightarrow> (Inr (quitting w), w))"

text \<open>
  The end of \<open>auto_cmdloop\<close>: the pop, which an exception skips.
\<close>

definition pop_shell :: "(error + bool) \<times> world \<Rightarrow> (error + bool) \<times> world" where
  "pop_shell r =
     (case r of
        (Inl e, w) \<Rightarrow> (Inl e, w)
      | (Inr stop, w) \<Rightarrow> (Inr stop, w\<lparr>cmd_stack := butlast (cmd_stack w)\<rparr>))"

text \<open>
  The loops call each other: the loop of \<open>Cmd.cmdloop\<close> calls \<open>onecmd\<close>, a handler
  called by \<open>onecmd\<close> calls \<open>auto_cmdloop\<close> of a new shell, which calls
  \<open>auto_cmdloop_internal\<close>, which calls the loop or \<open>onecmd\<close>. They run as long as
  the user keeps typing, so they take fuel: every call uses one unit, and \<open>None\<close>
  is a run that needs more.

  \<open>cmdloop_from\<close> is the \<open>while not stop\<close> of \<open>Cmd.cmdloop\<close>, one pass per unit of
  fuel: read a line, \<open>onecmd\<close>, \<open>postcmd\<close> (which updates the prompt).
\<close>

fun cmdloop_from :: "nat \<Rightarrow> nat \<Rightarrow> world \<Rightarrow> ((error + unit) \<times> world) option"
  and onecmd :: "nat \<Rightarrow> nat \<Rightarrow> string \<Rightarrow> world \<Rightarrow> ((error + bool) \<times> world) option"
  and auto_cmdloop :: "nat \<Rightarrow> shell \<Rightarrow> string \<Rightarrow> world \<Rightarrow> ((error + bool) \<times> world) option"
  and auto_cmdloop_internal ::
    "nat \<Rightarrow> nat \<Rightarrow> string \<Rightarrow> world \<Rightarrow> ((error + unit) \<times> world) option"
where
  "cmdloop_from 0 self w = None"
| "cmdloop_from (Suc n) self w =
     (case read_command self w of
        (Inl e, w1) \<Rightarrow> Some (Inl e, w1)
      | (Inr line, w1) \<Rightarrow>
          (case onecmd n self line w1 of
             None \<Rightarrow> None
           | Some (Inl e, w2) \<Rightarrow> Some (Inl e, w2)
           | Some (Inr stop, w2) \<Rightarrow>
               (case update_prompt self w2 of
                  (Inl e, w3) \<Rightarrow> Some (Inl e, w3)
                | (Inr u, w3) \<Rightarrow>
                    if stop then Some (Inr (), w3) else cmdloop_from n self w3)))"
| "onecmd 0 self line w = None"
| "onecmd (Suc n) self line w =
     (case onecmd_prepare self line w of
        (Inl b, w1) \<Rightarrow> Some (Inr b, w1)
      | (Inr line1, w1) \<Rightarrow>
          (case Cmd_onecmd self line1 w1 of
             (Inl e, w2) \<Rightarrow> Some (except_ValueError e w2)
           | (Inr (Return b), w2) \<Rightarrow> Some (Inr b, w2)
           | (Inr (Enter sh), w2) \<Rightarrow>
               (case auto_cmdloop n sh [] w2 of
                  None \<Rightarrow> None
                | Some (Inl e, w3) \<Rightarrow> Some (except_ValueError e w3)
                | Some (Inr b, w3) \<Rightarrow> Some (Inr b, w3))))"
| "auto_cmdloop 0 sh line w = None"
| "auto_cmdloop (Suc n) sh line w =
     (case auto_cmdloop_internal n (length (cmd_stack w)) line
             (w\<lparr>cmd_stack := cmd_stack w @ [sh]\<rparr>) of
        None \<Rightarrow> None
      | Some r \<Rightarrow> Some (pop_shell (internal_finish r)))"
| "auto_cmdloop_internal 0 self line w = None"
| "auto_cmdloop_internal (Suc n) self line w =
     (if length line = 0 then
        (case cmdloop_enter self w of
           (Inl e, w1) \<Rightarrow> Some (Inl e, w1)
         | (Inr u, w1) \<Rightarrow> cmdloop_from n self w1)
      else
        (case onecmd n self line w of
           None \<Rightarrow> None
         | Some (Inl e, w1) \<Rightarrow> Some (Inl e, w1)
         | Some (Inr b, w1) \<Rightarrow>
             if cmdloop_executed (self_shell self w1) \<and> \<not> quitting w1 then
               (case cmdloop_enter self w1 of
                  (Inl e, w2) \<Rightarrow> Some (Inl e, w2)
                | (Inr u, w2) \<Rightarrow> cmdloop_from n self w2)
             else Some (Inr (), w1)))"

text \<open>\<open>CommandLineBase.cmdloop\<close> as a whole.\<close>

definition cmdloop :: "nat \<Rightarrow> nat \<Rightarrow> world \<Rightarrow> ((error + unit) \<times> world) option" where
  "cmdloop n self w =
     (case cmdloop_enter self w of
        (Inl e, w1) \<Rightarrow> Some (Inl e, w1)
      | (Inr u, w1) \<Rightarrow> cmdloop_from n self w1)"

section \<open>The program (src/cli/main.py)\<close>

text \<open>
  \<open>main\<close> after the parsing of the arguments: the session is loaded, the top-level
  shell is built (with \<open>capture_output\<close> false) and run on the command given on the
  command line, and the session is saved. \<open>home\<close> is the user's home directory,
  \<open>cmd\<close> the words of the command.
\<close>

definition main :: "nat \<Rightarrow> string \<Rightarrow> string list \<Rightarrow> world \<Rightarrow> ((error + unit) \<times> world) option" where
  "main n home cmd w =
     (let w1 = w\<lparr>session := GatewayConfig_init home (disk w)\<rparr>;
          cmd_line = CommandLineBase_init CommandLine None w1;
          w2 = w1\<lparr>sink := set_capture_output False (sink w1)\<rparr>
      in case auto_cmdloop n cmd_line (join_with '' '' cmd) w2 of
           None \<Rightarrow> None
         | Some (Inl e, w3) \<Rightarrow> Some (Inl e, w3)
         | Some (Inr stop, w3) \<Rightarrow>
             (case GatewayConfig_save (session w3) (disk w3) of
                (c, fs) \<Rightarrow> Some (Inr (), w3\<lparr>session := c, disk := fs\<rparr>)))"

section \<open>The properties, in the words of the specification\<close>










section \<open>The discipline of the shell stack\<close>





section \<open>Example states\<close>

text \<open>
  A session scoped to the gateway \<open>http://gw\<close>, and a process with a client for that
  gateway, a keyboard script and a server script. \<open>ok_login\<close> is the server's answer
  to a successful login, \<open>status\<close> an answer with a status and a text only.
\<close>

definition session0 :: gateway_config where
  "session0 = \<lparr>filename = ''/home/u/.moziot-cli.json'',
      config = [(''gateways'', [(''http://gw'', [])])], dirty = False,
      root = Some (''gateways'', ''http://gw'')\<rparr>"

definition world0 :: "key_event list \<Rightarrow> http_outcome list \<Rightarrow> world" where
  "world0 ks srv =
     \<lparr>keyboard = ks, server = srv, sent = [], terminal = [],
      sink = CommandLineOutput_init, session = session0,
      disk = \<lparr>files = [], fs_log = []\<rparr>,
      client = \<lparr>gateway_url = ''http://gw'',
                headers = [(''Content-Type'', ''application/json''),
                           (''Accept'', ''application/json'')]\<rparr>,
      cmd_stack = [], quitting = False, use_rawinput = True, screen_columns = 80,
      login_calls = 0\<rparr>"

definition ok_login :: "string \<Rightarrow> http_outcome" where
  "ok_login tok = Response \<lparr>status_code = 200, resp_text = [], body = Some (JObj [(''jwt'', JStr tok)])\<rparr>"

definition status :: "nat \<Rightarrow> string \<Rightarrow> http_outcome" where
  "status n t = Response \<lparr>status_code = n, resp_text = t, body = None\<rparr>"

definition retry_world :: world where
  "retry_world = world0 [Line ''a@b'', Line ''pw1''] [status 401 [], ok_login ''t1'', status 200 ''[]'']"

definition things_request :: "world \<Rightarrow> request" where
  "things_request w = \<lparr>meth = ''GET'', url = Gateway_url (client w) ''/things'',
      req_headers = headers (client w), data = None\<rparr>"

text \<open>
  The process as \<open>main\<close> finds it: nothing on the shell stack, an empty disk, a
  terminal of 80 columns, and the keyboard and server scripts given.
  \<open>json_response\<close> is a 200 response with a JSON body.
\<close>

definition boot :: "key_event list \<Rightarrow> http_outcome list \<Rightarrow> world" where
  "boot ks srv =
     \<lparr>keyboard = ks, server = srv, sent = [], terminal = [],
      sink = CommandLineOutput_init,
      session = \<lparr>filename = [], config = [], dirty = False, root = None\<rparr>,
      disk = \<lparr>files = [], fs_log = []\<rparr>,
      client = \<lparr>gateway_url = [], headers = []\<rparr>,
      cmd_stack = [], quitting = False, use_rawinput = True, screen_columns = 80,
      login_calls = 0\<rparr>"

definition json_response :: "json \<Rightarrow> http_outcome" where
  "json_response j = Response \<lparr>status_code = 200, resp_text = [], body = Some j\<rparr>"











text \<open>
  The gateway answers the list of devices with 404; a docstring with a placeholder,
  a tab and uneven indentation.
\<close>

definition devices_404 :: world where
  "devices_404 = boot [Line ''gateway http://gw'', Line ''devices'', Line ''quit''] [status 404 []]"



section \<open>Properties of the session\<close>

lemma update_absent: "map_of al k = None \<Longrightarrow> AList.update k v al = al @ [(k, v)]"
  by (induction al) (auto split: if_splits)

lemma tmp_name_differs: "(name :: string) @ ''.tmp'' \<noteq> name"
  by (induction name) auto

lemma init_has_gateways: "map_of (config (GatewayConfig_init home fs)) ''gateways'' \<noteq> None"
  by (simp add: GatewayConfig_init_def Let_def AList.update_conv')

lemma init_clean: "\<not> dirty (GatewayConfig_init home fs)"
  by (simp add: GatewayConfig_init_def Let_def)

text \<open>
  The path kept for \<open>self.root\<close> always resolves: it does after \<open>__init__\<close> (there
  is none), after \<open>set_root\<close>, and \<open>set\<close> and \<open>save\<close> keep it so.
\<close>

lemma root_ok_init: "root_ok (GatewayConfig_init home fs)"
  by (simp add: root_ok_def GatewayConfig_init_def Let_def)

lemma root_ok_set_root: "GatewayConfig_set_root c key val = Inr c' \<Longrightarrow> root_ok c'"
  by (auto simp: root_ok_def root_scope_def GatewayConfig_set_root_def Let_def update_conv'
      split: option.splits if_splits)

lemma root_ok_set: "root_ok c \<Longrightarrow> root_ok (snd (GatewayConfig_set c key v))"
  by (auto simp: root_ok_def root_scope_def GatewayConfig_set_def Let_def update_conv'
      split: option.splits prod.splits)

lemma root_ok_save: "root_ok c \<Longrightarrow> root_ok (fst (GatewayConfig_save c fs))"
  by (auto simp: root_ok_def root_scope_def GatewayConfig_save_def Let_def)

text \<open>
  C5. \<open>save\<close> with the dirty flag clear changes neither the session nor the file
  system (no operation is logged). With the flag set it logs exactly two operations,
  the write of the document to \<open>filename + '.tmp'\<close> and the rename of that file over
  \<open>filename\<close>; afterwards the real file holds the document, the temporary file is
  gone, every other file is as before, and the session differs only in that the flag
  is clear.
\<close>

theorem save_writes_once_iff_dirty:
  "(\<not> dirty c \<longrightarrow> GatewayConfig_save c fs = (c, fs)) \<and>
   (dirty c \<longrightarrow>
      (let tmp = filename c @ ''.tmp''; (c', fs') = GatewayConfig_save c fs
       in fs_log fs' = fs_log fs @ [Write_file tmp (config c), Rename_file tmp (filename c)]
          \<and> map_of (files fs') (filename c) = Some (Json (config c))
          \<and> map_of (files fs') tmp = None
          \<and> (\<forall>n. n \<noteq> tmp \<longrightarrow> n \<noteq> filename c \<longrightarrow> map_of (files fs') n = map_of (files fs) n)
          \<and> c' = c\<lparr>dirty := False\<rparr>))"
  using tmp_name_differs [of "filename c"]
  by (auto simp: GatewayConfig_save_def write_file_def rename_file_def Let_def
      AList.update_conv' AList.delete_conv')

theorem save_writes_once_iff_dirty_witness:
  "GatewayConfig_save \<lparr>filename = ''f'', config = [], dirty = False, root = None\<rparr>
       \<lparr>files = [], fs_log = []\<rparr>
     = (\<lparr>filename = ''f'', config = [], dirty = False, root = None\<rparr>, \<lparr>files = [], fs_log = []\<rparr>)
   \<and> fs_log (snd (GatewayConfig_save \<lparr>filename = ''f'', config = [], dirty = True, root = None\<rparr>
       \<lparr>files = [], fs_log = []\<rparr>)) = [Write_file ''f.tmp'' [], Rename_file ''f.tmp'' ''f'']
   \<and> \<not> dirty (fst (GatewayConfig_save \<lparr>filename = ''f'', config = [], dirty = True, root = None\<rparr>
       \<lparr>files = [], fs_log = []\<rparr>))"
  using save_writes_once_iff_dirty [of "\<lparr>filename = ''f'', config = [], dirty = False, root = None\<rparr>" "\<lparr>files = [], fs_log = []\<rparr>"]
    save_writes_once_iff_dirty [of "\<lparr>filename = ''f'', config = [], dirty = True, root = None\<rparr>" "\<lparr>files = [], fs_log = []\<rparr>"]
  by (simp add: Let_def split: prod.splits)


text \<open>
  C3. \<open>__init__\<close> does not create the attribute \<open>root\<close>, so
  \<open>get\<close> on a fresh session, before any \<open>set_root\<close>, raises AttributeError for
  every key instead of returning the empty string.
\<close>

theorem get_before_set_root_raises:
  "GatewayConfig_get (GatewayConfig_init home fs) key = Inl (AttributeError ''root'')"
  by (simp add: GatewayConfig_get_def GatewayConfig_init_def Let_def)

text \<open>
  C9. When \<open>config[key]\<close> exists and has no entry \<open>val\<close>, \<open>set_root\<close> succeeds, adds
  the empty dictionary under \<open>val\<close> (at the end of \<open>config[key]\<close>), makes it the
  active scope and leaves the dirty flag as it was; so when the flag was clear, a
  \<open>save\<close> that follows changes nothing in the file system. In particular this is so
  for a fresh session and a gateway name that is not in the loaded document.
\<close>

theorem set_root_creates_scope_keeps_dirty:
  "(map_of (config c) key = Some sub \<and> map_of sub val = None \<longrightarrow>
     (\<exists>c'. GatewayConfig_set_root c key val = Inr c'
        \<and> dirty c' = dirty c
        \<and> map_of (config c') key = Some (sub @ [(val, [])])
        \<and> root c' = Some (key, val)
        \<and> root_scope c' = Some []
        \<and> (\<not> dirty c \<longrightarrow> GatewayConfig_save c' fs = (c', fs)))) \<and>
   (map_of (config (GatewayConfig_init home fs0)) ''gateways'' = Some gws \<and> map_of gws name = None \<longrightarrow>
     (\<exists>c'. GatewayConfig_set_root (GatewayConfig_init home fs0) ''gateways'' name = Inr c'
        \<and> root_scope c' = Some []
        \<and> GatewayConfig_save c' fs = (c', fs)))"
  by (auto simp: GatewayConfig_set_root_def GatewayConfig_save_def root_scope_def
      AList.update_conv' update_absent map_add_def init_clean)

theorem set_root_creates_scope_keeps_dirty_witness:
  "GatewayConfig_set_root (GatewayConfig_init ''/home/u'' \<lparr>files = [], fs_log = []\<rparr>) ''gateways'' ''gw''
     = Inr \<lparr>filename = ''/home/u/.moziot-cli.json'', config = [(''gateways'', [(''gw'', [])])],
            dirty = False, root = Some (''gateways'', ''gw'')\<rparr>
   \<and> GatewayConfig_save \<lparr>filename = ''/home/u/.moziot-cli.json'', config = [(''gateways'', [(''gw'', [])])],
            dirty = False, root = Some (''gateways'', ''gw'')\<rparr> \<lparr>files = [], fs_log = []\<rparr>
     = (\<lparr>filename = ''/home/u/.moziot-cli.json'', config = [(''gateways'', [(''gw'', [])])],
            dirty = False, root = Some (''gateways'', ''gw'')\<rparr>, \<lparr>files = [], fs_log = []\<rparr>)"
  using set_root_creates_scope_keeps_dirty [of "GatewayConfig_init ''/home/u'' \<lparr>files = [], fs_log = []\<rparr>"
      "''gateways''" "[]" "''gw''" "\<lparr>files = [], fs_log = []\<rparr>" "''/home/u''" "\<lparr>files = [], fs_log = []\<rparr>" "[]" "''gw''"]
  by (simp add: GatewayConfig_init_def GatewayConfig_set_root_def GatewayConfig_save_def Let_def)




section \<open>Properties of the authenticated client\<close>
















lemma login_failed_format:
  "percent (Str ''Login failed: %s'') [t] = Inr (Str (''Login failed: '' @ t))"
  by simp




lemma rk_term: "read_key v = (x, v') \<Longrightarrow> terminal v' = terminal v"
  by (auto simp: read_key_def split: list.splits key_event.splits)
lemma le_term: "log_error m a v = (x, v') \<Longrightarrow> terminal v' = terminal v"
  by (auto simp: log_error_def split: sum.splits)
lemma sj_term: "Gateway_set_jwt j v = (x, v') \<Longrightarrow> terminal v' = terminal v"
  by (auto simp: Gateway_set_jwt_def split: prod.splits sum.splits json.splits)
lemma sd_term: "send rq v = (out, v') \<Longrightarrow> terminal v' = terminal v"
  by (auto simp: send_def split: list.splits)

lemma login_pass_term:
  "login_pass v = Inl (res, v') \<Longrightarrow> \<exists>ys. terminal v' = terminal v @ Str ''Enter    email: '' # ys"
  "login_pass v = Inr v' \<Longrightarrow> \<exists>ys. terminal v' = terminal v @ Str ''Enter    email: '' # ys"
  by (auto simp: login_pass_def Let_def show_prompt_def py_print_def
        split: prod.splits sum.splits http_outcome.splits if_splits
        dest!: rk_term le_term sj_term sd_term)

lemma login_loop_term:
  "\<exists>ys. terminal (snd (login_loop v)) = terminal v @ Str ''Enter    email: '' # ys"
proof (induction v rule: login_loop.induct)
  case (1 v)
  show ?case
  proof (cases "login_pass v")
    case (Inl res)
    with login_pass_term(1) [of v "fst res" "snd res"] show ?thesis
      by (subst login_loop.simps) simp
  next
    case (Inr v2)
    with 1 [of v2] login_pass_term(2) [of v v2] show ?thesis
      by (subst login_loop.simps) auto
  qed
qed

lemma failed_pass:
  assumes "keyboard w = Line email # Line password # ks" "server w = Response r # rest"
    "status_code r \<noteq> 200"
  shows "\<exists>w'. login_pass w = Inr w' \<and> keyboard w' = ks \<and> server w' = rest
        \<and> terminal w' = terminal w @ [Str ''Enter    email: '', Str ''Enter password: '']
        \<and> error_count (sink w') = error_count (sink w) + 1
        \<and> last (logged (sink w')) = (''error'', Str ''Login failed: %s'', [resp_text r])
        \<and> (\<forall>cap. captured_output (sink w) = Some cap \<longrightarrow>
              captured_output (sink w') = Some (cap @ [(''error'', Str (''Login failed: '' @ resp_text r))]))"
  using assms
  by (simp add: login_pass_def read_key_def show_prompt_def send_def Let_def log_error_def
      CommandLineOutput_error_def split: option.splits)

text \<open>
  C2. When both prompts are answered and the server answers the
  login request with a status other than 200, the pass through the loop reports
  \<open>Login failed\<close> with the server's text as one error of the sink, does not return,
  and the loop goes round: the next thing written to the terminal is the email
  prompt again, within the same call of \<open>login\<close>.
\<close>

theorem login_failure_prompts_again:
  "keyboard w = Line email # Line password # ks \<and> server w = Response r # rest
     \<and> status_code r \<noteq> 200 \<longrightarrow>
   (\<exists>w'. login_pass w = Inr w' \<and> login_loop w = login_loop w'
        \<and> keyboard w' = ks \<and> server w' = rest
        \<and> error_count (sink w') = error_count (sink w) + 1
        \<and> last (logged (sink w')) = (''error'', Str ''Login failed: %s'', [resp_text r])
        \<and> (\<forall>cap. captured_output (sink w) = Some cap \<longrightarrow>
              captured_output (sink w') = Some (cap @ [(''error'', Str (''Login failed: '' @ resp_text r))]))
        \<and> (\<exists>more. terminal (snd (login_loop w)) =
              terminal w @ [Str ''Enter    email: '', Str ''Enter password: '', Str ''Enter    email: ''] @ more))"
proof
  assume a: "keyboard w = Line email # Line password # ks \<and> server w = Response r # rest
     \<and> status_code r \<noteq> 200"
  then obtain w' where w': "login_pass w = Inr w'" "keyboard w' = ks" "server w' = rest"
    "terminal w' = terminal w @ [Str ''Enter    email: '', Str ''Enter password: '']"
    "error_count (sink w') = error_count (sink w) + 1"
    "last (logged (sink w')) = (''error'', Str ''Login failed: %s'', [resp_text r])"
    "\<forall>cap. captured_output (sink w) = Some cap \<longrightarrow>
              captured_output (sink w') = Some (cap @ [(''error'', Str (''Login failed: '' @ resp_text r))])"
    using failed_pass [of w email password ks r rest] by blast
  from w'(1) have eq: "login_loop w = login_loop w'"
    by (subst login_loop.simps) simp
  from login_loop_term [of w'] w'(4) eq
  have "\<exists>more. terminal (snd (login_loop w)) =
              terminal w @ [Str ''Enter    email: '', Str ''Enter password: '', Str ''Enter    email: ''] @ more"
    by auto
  with w' eq show "\<exists>w'. login_pass w = Inr w' \<and> login_loop w = login_loop w'
        \<and> keyboard w' = ks \<and> server w' = rest
        \<and> error_count (sink w') = error_count (sink w) + 1
        \<and> last (logged (sink w')) = (''error'', Str ''Login failed: %s'', [resp_text r])
        \<and> (\<forall>cap. captured_output (sink w) = Some cap \<longrightarrow>
              captured_output (sink w') = Some (cap @ [(''error'', Str (''Login failed: '' @ resp_text r))]))
        \<and> (\<exists>more. terminal (snd (login_loop w)) =
              terminal w @ [Str ''Enter    email: '', Str ''Enter password: '', Str ''Enter    email: ''] @ more)"
    by blast
qed

theorem login_failure_prompts_again_witness:
  "keyboard (world0 [Line ''a@b'', Line ''typo''] [status 403 ''bad password''])
     = [Line ''a@b'', Line ''typo'']
   \<and> server (world0 [Line ''a@b'', Line ''typo''] [status 403 ''bad password''])
     = [status 403 ''bad password'']
   \<and> (\<exists>more. terminal (snd (login_loop (world0 [Line ''a@b'', Line ''typo''] [status 403 ''bad password'']))) =
              [Str ''Enter    email: '', Str ''Enter password: '', Str ''Enter    email: ''] @ more)"
proof -
  have h: "keyboard (world0 [Line ''a@b'', Line ''typo''] [status 403 ''bad password''])
       = Line ''a@b'' # Line ''typo'' # []
     \<and> server (world0 [Line ''a@b'', Line ''typo''] [status 403 ''bad password''])
       = Response \<lparr>status_code = 403, resp_text = ''bad password'', body = None\<rparr> # []
     \<and> status_code \<lparr>status_code = 403, resp_text = ''bad password'', body = None\<rparr> \<noteq> 200"
    by (simp add: world0_def status_def)
  have t: "terminal (world0 [Line ''a@b'', Line ''typo''] [status 403 ''bad password'']) = []"
    by (simp add: world0_def)
  from login_failure_prompts_again [of "world0 [Line ''a@b'', Line ''typo''] [status 403 ''bad password'']"
      "''a@b''" "''typo''" "[]"
      "\<lparr>status_code = 403, resp_text = ''bad password'', body = None\<rparr>" "[]"] h
  have "\<exists>more. terminal (snd (login_loop (world0 [Line ''a@b'', Line ''typo''] [status 403 ''bad password'']))) =
      terminal (world0 [Line ''a@b'', Line ''typo''] [status 403 ''bad password''])
        @ [Str ''Enter    email: '', Str ''Enter password: '', Str ''Enter    email: ''] @ more"
    by blast
  with h t show ?thesis by (simp add: status_def)
qed


lemma rk_lc: "read_key v = (x, v') \<Longrightarrow> login_calls v' = login_calls v"
  by (auto simp: read_key_def split: list.splits key_event.splits)
lemma le_lc: "log_error m a v = (x, v') \<Longrightarrow> login_calls v' = login_calls v"
  by (auto simp: log_error_def split: sum.splits)
lemma sj_lc: "Gateway_set_jwt j v = (x, v') \<Longrightarrow> login_calls v' = login_calls v"
  by (auto simp: Gateway_set_jwt_def split: prod.splits sum.splits json.splits)
lemma sd_lc: "send rq v = (out, v') \<Longrightarrow> login_calls v' = login_calls v"
  by (auto simp: send_def split: list.splits)

lemma login_pass_lc:
  "login_pass v = Inl (res, v') \<Longrightarrow> login_calls v' = login_calls v"
  "login_pass v = Inr v' \<Longrightarrow> login_calls v' = login_calls v"
  by (auto simp: login_pass_def Let_def show_prompt_def py_print_def
        split: prod.splits sum.splits http_outcome.splits if_splits
        dest!: rk_lc le_lc sj_lc sd_lc)

lemma login_loop_lc: "login_calls (snd (login_loop v)) = login_calls v"
proof (induction v rule: login_loop.induct)
  case (1 v)
  show ?case
  proof (cases "login_pass v")
    case (Inl res)
    with login_pass_lc(1) [of v "fst res" "snd res"] show ?thesis
      by (subst login_loop.simps) simp
  next
    case (Inr v2)
    with 1 [of v2] login_pass_lc(2) [of v v2] show ?thesis
      by (subst login_loop.simps) auto
  qed
qed

lemma Gateway_login_lc: "Gateway_login v = (x, v') \<Longrightarrow> login_calls v' = login_calls v + 1"
  using login_loop_lc [of "v\<lparr>login_calls := login_calls v + 1\<rparr>"]
  by (simp add: Gateway_login_def)
text \<open>
  C1. Take the outcome of the request a call of \<open>get\<close> or
  \<open>put\<close> sends first. A connection failure or a status other than 401 ends the call
  with no login. On a 401 the login flow is called once; an exception of the login
  leaves the call, and when the login returns (with or without a token) the call
  goes on exactly as a new call from the state after the login: the request is sent
  again, and a further 401 calls the login flow again.
\<close>

theorem login_again_on_every_401:
  "send \<lparr>meth = m, url = Gateway_url (client w) path, req_headers = headers (client w),
         data = d\<rparr> w = (out, w1) \<longrightarrow>
     (case out of
        ConnectionError \<Rightarrow> login_calls (snd (request_loop m d path w)) = login_calls w
      | Response r \<Rightarrow>
          if status_code r \<noteq> 401
          then login_calls (snd (request_loop m d path w)) = login_calls w
          else (case Gateway_login w1 of
                  (Inl e, w2) \<Rightarrow> request_loop m d path w = (Inl e, w2)
                | (Inr x, w2) \<Rightarrow>
                    login_calls w2 = login_calls w + 1
                    \<and> request_loop m d path w = request_loop m d path w2))"
proof
  let ?rq = "\<lparr>meth = m, url = Gateway_url (client w) path, req_headers = headers (client w),
         data = d\<rparr>"
  assume s: "send ?rq w = (out, w1)"
  then have lc1: "login_calls w1 = login_calls w" by (rule sd_lc)
  have unfold: "request_loop m d path w =
      (case request_pass m d path w of Inl res \<Rightarrow> res | Inr w' \<Rightarrow> request_loop m d path w')"
    by (rule request_loop.simps)
  show "case out of
        ConnectionError \<Rightarrow> login_calls (snd (request_loop m d path w)) = login_calls w
      | Response r \<Rightarrow>
          if status_code r \<noteq> 401
          then login_calls (snd (request_loop m d path w)) = login_calls w
          else (case Gateway_login w1 of
                  (Inl e, w2) \<Rightarrow> request_loop m d path w = (Inl e, w2)
                | (Inr x, w2) \<Rightarrow>
                    login_calls w2 = login_calls w + 1
                    \<and> request_loop m d path w = request_loop m d path w2)"
  proof (cases out)
    case ConnectionError
    with s lc1 show ?thesis
      by (auto simp: unfold request_pass_def Let_def split: prod.splits sum.splits dest!: le_lc)
  next
    case (Response r)
    show ?thesis
    proof (cases "status_code r = 401")
      case False
      with s lc1 Response show ?thesis
        by (auto simp: unfold request_pass_def Let_def split: prod.splits sum.splits dest!: le_lc)
    next
      case True
      obtain res w2 where l: "Gateway_login w1 = (res, w2)" by (cases "Gateway_login w1")
      then have "login_calls w2 = login_calls w + 1"
        using lc1 by (auto dest: Gateway_login_lc)
      with s Response True l show ?thesis
        by (cases res) (simp_all add: unfold request_pass_def Let_def)
    qed
  qed
qed

theorem login_again_on_every_401_witness:
  "fst (send (things_request retry_world) retry_world) = status 401 []
   \<and> login_calls (snd (Gateway_login (snd (send (things_request retry_world) retry_world))))
       = login_calls retry_world + 1
   \<and> request_loop ''GET'' None ''/things'' retry_world
       = request_loop ''GET'' None ''/things''
           (snd (Gateway_login (snd (send (things_request retry_world) retry_world))))"
proof -
  have s: "send \<lparr>meth = ''GET'', url = Gateway_url (client retry_world) ''/things'',
      req_headers = headers (client retry_world), data = None\<rparr> retry_world
      = (Response \<lparr>status_code = 401, resp_text = [], body = None\<rparr>,
         snd (send (things_request retry_world) retry_world))"
    by (simp add: send_def retry_world_def world0_def things_request_def status_def)
  have g: "fst (Gateway_login (snd (send (things_request retry_world) retry_world)))
      = Inr (Some (JStr ''t1''))"
    by code_simp
  have f: "fst (send (things_request retry_world) retry_world) = status 401 []"
    by code_simp
  from login_again_on_every_401 [of "''GET''" retry_world "''/things''" None
      "Response \<lparr>status_code = 401, resp_text = [], body = None\<rparr>"
      "snd (send (things_request retry_world) retry_world)"] s g f
  show ?thesis
    by (simp add: split_beta split: sum.splits)
qed



text \<open>
  A server that rejects the first token as well: one \<open>get\<close> prompts for two logins
  and then returns the 200 response.
\<close>





text \<open>
  A first login attempt refused with 403, a second one accepted: the one call of
  \<open>login\<close> prompts twice and returns the token.
\<close>

text \<open>
  A server that rejects the first token as well: one \<open>get\<close> calls the login flow
  twice, prompts twice for email and password, and then returns the 200 response.
\<close>

theorem get_logs_in_twice:
  "fst (Gateway_get ''/things''
          (world0 [Line ''a@b'', Line ''pw1'', Line ''a@b'', Line ''pw2'']
             [status 401 [], ok_login ''t1'', status 401 [], ok_login ''t2'', status 200 ''[]'']))
     = Inr (Some \<lparr>status_code = 200, resp_text = ''[]'', body = None\<rparr>)
   \<and> login_calls (snd (Gateway_get ''/things''
          (world0 [Line ''a@b'', Line ''pw1'', Line ''a@b'', Line ''pw2'']
             [status 401 [], ok_login ''t1'', status 401 [], ok_login ''t2'', status 200 ''[]''])))
     = 2
   \<and> terminal (snd (Gateway_get ''/things''
          (world0 [Line ''a@b'', Line ''pw1'', Line ''a@b'', Line ''pw2'']
             [status 401 [], ok_login ''t1'', status 401 [], ok_login ''t2'', status 200 ''[]''])))
     = [Str ''Enter    email: '', Str ''Enter password: '', Str ''Enter    email: '', Str ''Enter password: '']"
  by code_simp

text \<open>
  A first login attempt refused with 403, a second one accepted: the one call of
  \<open>login\<close> prompts twice and returns the token.
\<close>

theorem login_retries_after_refusal:
  "fst (Gateway_login (world0 [Line ''a@b'', Line ''typo'', Line ''a@b'', Line ''secret'']
                         [status 403 ''bad password'', ok_login ''tok'']))
     = Inr (Some (JStr ''tok''))
   \<and> terminal (snd (Gateway_login (world0 [Line ''a@b'', Line ''typo'', Line ''a@b'', Line ''secret'']
                         [status 403 ''bad password'', ok_login ''tok''])))
     = [Str ''Enter    email: '', Str ''Enter password: '', Str ''Enter    email: '', Str ''Enter password: '']
   \<and> login_calls (snd (Gateway_login (world0 [Line ''a@b'', Line ''typo'', Line ''a@b'', Line ''secret'']
                         [status 403 ''bad password'', ok_login ''tok'']))) = 1"
  by code_simp
section \<open>Properties of the shells\<close>

text \<open>
  C4. In the gateway shell, \<open>devices\<close> with a gateway that
  answers 404: \<open>Gateway.devices\<close> returns \<open>None\<close>, \<open>len(None)\<close> raises TypeError,
  \<open>onecmd\<close> catches ValueError only, and the exception leaves \<open>main\<close>: no error
  is recorded in the sink, the rest of the input is not read and both shells are
  still on the stack. \<open>GatewayCommandLine.devices\<close>, which \<open>do_devices\<close> does not
  use, returns the empty list for the same answer.
\<close>

theorem devices_without_result_escapes:
  "main 9 ''/home/u'' [] devices_404
     = Some (Inl (TypeError ''object has no len()''),
             snd (the (main 9 ''/home/u'' [] devices_404)))
   \<and> keyboard (snd (the (main 9 ''/home/u'' [] devices_404)))
     = [Line ''quit'']
   \<and> error_count (sink (snd (the (main 9 ''/home/u'' [] devices_404)))) = 0
   \<and> map kind (cmd_stack (snd (the (main 9 ''/home/u'' [] devices_404))))
     = [CommandLine, GatewayCommandLine]
   \<and> fst (GatewayCommandLine_devices (world0 [] [status 404 []])) = Inr (JArr [])"
  by code_simp



lemma error_format: "percent (Str ''Error: %s'') [msg] = Inr (Str (''Error: '' @ msg))"
  by simp










section \<open>The shell stack is a stack\<close>






lemma k_show_prompt [simp]: "cmd_stack (show_prompt p v) = cmd_stack v"
  "use_rawinput (show_prompt p v) = use_rawinput v"
  by (auto simp: show_prompt_def)

lemma k_py_print [simp]: "cmd_stack (py_print p v) = cmd_stack v"
  "use_rawinput (py_print p v) = use_rawinput v"
  by (auto simp: py_print_def)

lemma k_print_pieces [simp]: "cmd_stack (print_pieces p v) = cmd_stack v"
  "use_rawinput (print_pieces p v) = use_rawinput v"
  by (auto simp: print_pieces_def)








lemma then_doE:
  assumes "then_do r f = (y, w')"
  obtains (raised) e where "r = (Inl e, w')" "y = Inl e"
        | (went_on) x v where "r = (Inr x, v)" "f x v = (y, w')"
  using assms by (auto simp: then_do_def split: prod.splits sum.splits)




















lemma k_update_shell [simp]:
  "use_rawinput (update_shell self f w) = use_rawinput w"
  "length (cmd_stack (update_shell self f w)) = length (cmd_stack w)"
  "take self (cmd_stack (update_shell self f w)) = take self (cmd_stack w)"
  by (simp_all add: update_shell_def)

lemma k_returning: "returning b r = (y, w') \<Longrightarrow> snd r = w'"
  by (auto simp: returning_def elim!: then_doE)


















































section \<open>Properties of trim and help\<close>













lemma pop_only_blank:
  "\<exists>pre post. xs = pre @ pop_leading (pop_trailing xs) @ post
      \<and> list_all (\<lambda>l. l = []) pre \<and> list_all (\<lambda>l. l = []) post"
proof -
  let ?post = "rev (takeWhile (\<lambda>l. l = []) (rev xs))"
  let ?pre = "takeWhile (\<lambda>l. l = []) (pop_trailing xs)"
  have "xs = pop_trailing xs @ ?post"
    unfolding pop_trailing_def
    by (metis rev_append rev_rev_ident takeWhile_dropWhile_id)
  moreover have "pop_trailing xs = ?pre @ pop_leading (pop_trailing xs)"
    unfolding pop_leading_def by simp
  ultimately have "xs = ?pre @ pop_leading (pop_trailing xs) @ ?post" by (metis append_assoc)
  moreover have "list_all (\<lambda>l. l = []) ?pre"
    by (simp add: list_all_iff) (meson set_takeWhileD)
  moreover have "list_all (\<lambda>l. l = []) ?post"
    by (simp add: list_all_iff) (meson set_takeWhileD)
  ultimately show ?thesis by blast
qed




































end
